theory Spec2Isabelle
  imports Complex_Main "HOL-Library.List_Lexorder" "HOL-Library.Char_ord"
begin

section \<open>JavaScript values used by the scraper\<close>

text \<open>
  A JavaScript string is modelled as a \<^typ>\<open>string\<close> whose characters are the code units
  \<open>0 .. 255\<close> (Latin-1). The order on strings is the lexicographic order on code units, which is
  the order of the default \<^verbatim>\<open>Array.prototype.sort\<close>.

  Numbers: \<^verbatim>\<open>parseInt\<close> and \<^verbatim>\<open>Number\<close> yield \<^verbatim>\<open>NaN\<close> or a number. The model
  keeps the integers exactly. Where the program's result would depend on the rounding of a double
  (an integer beyond \<open>2^53\<close>, a literal with a fraction or an exponent) the model does not guess:
  it yields the outcome \<open>Unmodelled\<close>, which is not an exception of the program.
\<close>

datatype jsnum = NaN | Num int

datatype error =
    TypeError string      \<comment> \<open>a thrown TypeError; the text names the failing expression\<close>
  | NetworkFailure string \<comment> \<open>\<^verbatim>\<open>fetch\<close>, \<^verbatim>\<open>text()\<close> or \<^verbatim>\<open>json()\<close> rejected\<close>
  | Unmodelled string     \<comment> \<open>the input leaves the fragment of numbers the model covers\<close>

text \<open>A value as \<^verbatim>\<open>response.json()\<close> delivers it. \<open>JUndefined\<close> is what reading an absent
  property gives. An object is the list of its own properties, keys distinct.\<close>

datatype jsval =
    JUndefined
  | JNull
  | JBool bool
  | JNum rat
  | JStr string
  | JArr "jsval list"
  | JObj "(string \<times> jsval) list"

subsection \<open>Strings\<close>

definition startsWith :: "string \<Rightarrow> string \<Rightarrow> bool" where
  \<comment> \<open>\<^verbatim>\<open>s.startsWith(p)\<close>\<close>
  "startsWith s p = (take (length p) s = p)"

definition slice :: "nat \<Rightarrow> nat \<Rightarrow> string \<Rightarrow> string" where
  \<comment> \<open>\<^verbatim>\<open>s.slice(a, b)\<close> for \<open>0 \<le> a \<le> b\<close>\<close>
  "slice a b s = take (b - a) (drop a s)"

definition sliceFrom :: "nat \<Rightarrow> string \<Rightarrow> string" where
  \<comment> \<open>\<^verbatim>\<open>s.slice(a)\<close> for \<open>0 \<le> a\<close>\<close>
  "sliceFrom a s = drop a s"

definition splitFirst :: "char \<Rightarrow> string \<Rightarrow> string" where
  \<comment> \<open>\<^verbatim>\<open>s.split(sep)[0]\<close> for a separator of one character: the text before its first occurrence\<close>
  "splitFirst sep s = takeWhile (\<lambda>c. c \<noteq> sep) s"

definition toLowerChar :: "char \<Rightarrow> char" where
  "toLowerChar c =
     (let n = (of_char c :: nat)
      in if (65 \<le> n \<and> n \<le> 90) \<or> (192 \<le> n \<and> n \<le> 222 \<and> n \<noteq> 215)
         then char_of (n + 32) else c)"

definition toLowerCase :: "string \<Rightarrow> string" where
  "toLowerCase s = map toLowerChar s"

definition padStart2 :: "string \<Rightarrow> string" where
  \<comment> \<open>\<^verbatim>\<open>s.padStart(2, '0')\<close>\<close>
  "padStart2 s = replicate (2 - length s) (CHR ''0'') @ s"

definition isWhiteSpace :: "char \<Rightarrow> bool" where
  \<comment> \<open>the white space and line terminators of ECMAScript among the code units below 256\<close>
  "isWhiteSpace c = ((of_char c :: nat) \<in> set [9, 10, 11, 12, 13, 32, 160])"

definition trim :: "string \<Rightarrow> string" where
  "trim s = rev (dropWhile isWhiteSpace (rev (dropWhile isWhiteSpace s)))"

subsection \<open>Numbers\<close>

definition digitValue :: "char \<Rightarrow> nat option" where
  "digitValue c =
     (let n = (of_char c :: nat)
      in if 48 \<le> n \<and> n \<le> 57 then Some (n - 48)
         else if 97 \<le> n \<and> n \<le> 122 then Some (n - 87)
         else if 65 \<le> n \<and> n \<le> 90 then Some (n - 55)
         else None)"

definition radixDigit :: "nat \<Rightarrow> char \<Rightarrow> bool" where
  "radixDigit R c = (case digitValue c of Some v \<Rightarrow> v < R | None \<Rightarrow> False)"

definition digitsValue :: "nat \<Rightarrow> string \<Rightarrow> nat" where
  "digitsValue R Z = foldl (\<lambda>acc c. case digitValue c of Some v \<Rightarrow> acc * R + v | None \<Rightarrow> acc) 0 Z"

definition parseInt :: "string \<Rightarrow> jsnum" where
  \<comment> \<open>\<^verbatim>\<open>parseInt(s)\<close> with no radix: white space, a sign, an optional \<^verbatim>\<open>0x\<close>, then the longest
      run of digits; \<^verbatim>\<open>NaN\<close> when that run is empty. The value is the exact integer.\<close>
  "parseInt inputString =
     (let S = dropWhile isWhiteSpace inputString;
          neg = (S \<noteq> [] \<and> hd S = CHR ''-'');
          S1 = (if S \<noteq> [] \<and> (hd S = CHR ''+'' \<or> hd S = CHR ''-'') then tl S else S);
          hex = (take 2 S1 = ''0x'' \<or> take 2 S1 = ''0X'');
          S2 = (if hex then drop 2 S1 else S1);
          R = (if hex then 16 else 10);
          Z = takeWhile (radixDigit R) S2
      in if Z = [] then NaN
         else Num ((if neg then - 1 else 1) * int (digitsValue R Z)))"

definition maxSafe :: int where
  "maxSafe = 2 ^ 53"

definition prefixedInt :: "nat \<Rightarrow> string \<Rightarrow> jsnum option" where
  \<comment> \<open>the digits after \<^verbatim>\<open>0x\<close>, \<^verbatim>\<open>0o\<close> or \<^verbatim>\<open>0b\<close>\<close>
  "prefixedInt R ds =
     (if ds \<noteq> [] \<and> list_all (radixDigit R) ds
      then (if int (digitsValue R ds) \<le> maxSafe then Some (Num (int (digitsValue R ds))) else None)
      else Some NaN)"

definition Number_js :: "string \<Rightarrow> jsnum option" where
  \<comment> \<open>\<^verbatim>\<open>Number(s)\<close> on a string. \<open>None\<close>: the text may be a literal with a fraction, an exponent
      or \<^verbatim>\<open>Infinity\<close>, or an integer beyond \<open>2^53\<close>; the model does not cover it.\<close>
  "Number_js s =
     (let t = trim s;
          p = take 2 t;
          signed = (t \<noteq> [] \<and> (hd t = CHR ''+'' \<or> hd t = CHR ''-''));
          u = (if signed then tl t else t)
      in if t = [] then Some (Num 0)
         else if p = ''0x'' \<or> p = ''0X'' then prefixedInt 16 (drop 2 t)
         else if p = ''0o'' \<or> p = ''0O'' then prefixedInt 8 (drop 2 t)
         else if p = ''0b'' \<or> p = ''0B'' then prefixedInt 2 (drop 2 t)
         else if u \<noteq> [] \<and> list_all (radixDigit 10) u
           then (if int (digitsValue 10 u) \<le> maxSafe
                 then Some (Num ((if hd t = CHR ''-'' then - 1 else 1) * int (digitsValue 10 u)))
                 else None)
         else if u = [] then Some NaN
         else if radixDigit 10 (hd u) \<or> hd u = CHR ''.'' \<or> hd u = CHR ''I'' then None
         else Some NaN)"

definition strictEq :: "jsnum \<Rightarrow> jsnum \<Rightarrow> bool" where
  \<comment> \<open>\<^verbatim>\<open>a === b\<close> on numbers: \<^verbatim>\<open>NaN\<close> equals nothing\<close>
  "strictEq a b = (case (a, b) of (Num x, Num y) \<Rightarrow> x = y | _ \<Rightarrow> False)"

definition plusTwo :: "jsnum \<Rightarrow> jsnum" where
  \<comment> \<open>\<^verbatim>\<open>hour + 2\<close>\<close>
  "plusTwo a = (case a of NaN \<Rightarrow> NaN | Num x \<Rightarrow> Num (x + 2))"

function natToString :: "nat \<Rightarrow> string" where
  "natToString n =
     (if n < 10 then [char_of (48 + n)]
      else natToString (n div 10) @ [char_of (48 + n mod 10)])"
  by pat_completeness auto
termination
  by (relation "measure id") auto

definition numToString :: "jsnum \<Rightarrow> string option" where
  \<comment> \<open>the text of a number in a template literal or from \<^verbatim>\<open>toString()\<close>; \<open>None\<close> beyond \<open>2^53\<close>\<close>
  "numToString a =
     (case a of
        NaN \<Rightarrow> Some ''NaN''
      | Num x \<Rightarrow>
          if maxSafe < \<bar>x\<bar> then None
          else if x < 0 then Some (CHR ''-'' # natToString (nat (- x)))
          else Some (natToString (nat x)))"

section \<open>Documents, the sites and effects\<close>

text \<open>
  The program reads an HTML text only through the DOM that JSDOM builds from it, so an HTML text
  is represented by that DOM, reduced to the elements the program selects.
\<close>

record anchor =
  attr :: string  \<comment> \<open>the \<^verbatim>\<open>href\<close> content attribute, as written\<close>
  href :: string  \<comment> \<open>the \<^verbatim>\<open>href\<close> property, as the DOM resolves it\<close>

record option_elem =
  ovalue :: string  \<comment> \<open>\<^verbatim>\<open>option.value\<close>\<close>
  otext :: string   \<comment> \<open>\<^verbatim>\<open>option.textContent\<close>\<close>

record document =
  location :: string                        \<comment> \<open>\<^verbatim>\<open>dom.window.location.href\<close>\<close>
  anchors :: "anchor list"                  \<comment> \<open>the \<^verbatim>\<open>a\<close> elements with an \<^verbatim>\<open>href\<close>, in document order\<close>
  ths :: "string list"                      \<comment> \<open>text of the \<^verbatim>\<open>th\<close> elements\<close>
  tds :: "string list"                      \<comment> \<open>text of the \<^verbatim>\<open>td\<close> elements\<close>
  movieSelect :: "option_elem list option"  \<comment> \<open>the options of \<^verbatim>\<open>#movie\<close>, if there are any to read\<close>
  daySelect :: "option_elem list option"    \<comment> \<open>the options of \<^verbatim>\<open>#day\<close>\<close>
  group1 :: "string list"                   \<comment> \<open>values of \<^verbatim>\<open>input[name="group1"]\<close>\<close>

record headers =
  setCookie :: "string option"       \<comment> \<open>\<^verbatim>\<open>headers.get('set-cookie')\<close>, \<open>None\<close> for \<^verbatim>\<open>null\<close>\<close>
  locationHeader :: "string option"  \<comment> \<open>\<^verbatim>\<open>headers.get('location')\<close>\<close>

record showing =
  timeOp :: jsval
  movie :: "string option"  \<comment> \<open>\<open>None\<close> is \<^verbatim>\<open>undefined\<close>\<close>

datatype request =
    Get string                   \<comment> \<open>\<^verbatim>\<open>fetch(url)\<close>\<close>
  | GetWithCookie string string  \<comment> \<open>\<^verbatim>\<open>fetch(url, { headers: { Cookie } })\<close>\<close>
  | PostLogin string             \<comment> \<open>the POST of the fixed credentials, with \<^verbatim>\<open>redirect: 'manual'\<close>\<close>

datatype event =
    Request request
  | ConsoleLog string
  | ConsoleError string "error option"  \<comment> \<open>the fixed text, and the error printed with it\<close>

text \<open>
  The sites: what each request is answered with, given the events so far (\<open>None\<close>: the
  request or the reading of its body is rejected). \<open>resolveUrl h b\<close> is
  \<^verbatim>\<open>new URL(h, b).href\<close>, \<open>None\<close> when the constructor throws.
\<close>

record world =
  respondHtml :: "event list \<Rightarrow> string \<Rightarrow> document option"
  respondJson :: "event list \<Rightarrow> string \<Rightarrow> jsval option"
  respondLogin :: "event list \<Rightarrow> string \<Rightarrow> headers option"
  respondCookie :: "event list \<Rightarrow> string \<Rightarrow> string \<Rightarrow> document option"
  resolveUrl :: "string \<Rightarrow> string \<Rightarrow> string option"

type_synonym 'a io = "event list \<Rightarrow> (error + 'a) \<times> event list"

definition returnIO :: "'a \<Rightarrow> 'a io" where
  "returnIO x = (\<lambda>evs. (Inr x, evs))"

definition throwIO :: "error \<Rightarrow> 'a io" where
  "throwIO e = (\<lambda>evs. (Inl e, evs))"

definition liftE :: "error + 'a \<Rightarrow> 'a io" where
  "liftE r = (\<lambda>evs. (r, evs))"

definition bindIO :: "'a io \<Rightarrow> ('a \<Rightarrow> 'b io) \<Rightarrow> 'b io" where
  "bindIO m f = (\<lambda>evs. case m evs of (Inl e, evs') \<Rightarrow> (Inl e, evs') | (Inr x, evs') \<Rightarrow> f x evs')"

definition catchIO :: "'a io \<Rightarrow> (error \<Rightarrow> 'a io) \<Rightarrow> 'a io" where
  \<comment> \<open>\<^verbatim>\<open>try { m } catch (e) { h }\<close>; \<open>Unmodelled\<close> is no exception and passes through\<close>
  "catchIO m h =
     (\<lambda>evs. case m evs of
              (Inl (Unmodelled s), evs') \<Rightarrow> (Inl (Unmodelled s), evs')
            | (Inl e, evs') \<Rightarrow> h e evs'
            | (Inr x, evs') \<Rightarrow> (Inr x, evs'))"

definition emit :: "event \<Rightarrow> unit io" where
  "emit ev = (\<lambda>evs. (Inr (), evs @ [ev]))"

definition answer :: "request \<Rightarrow> 'a option \<Rightarrow> 'a io" where
  "answer rq r =
     (\<lambda>evs. (case r of None \<Rightarrow> Inl (NetworkFailure ''fetch'') | Some x \<Rightarrow> Inr x,
             evs @ [Request rq]))"

definition urlText :: "string option \<Rightarrow> string" where
  \<comment> \<open>a link that may be \<^verbatim>\<open>undefined\<close>, as a template literal and \<^verbatim>\<open>fetch\<close> read it\<close>
  "urlText l = (case l of None \<Rightarrow> ''undefined'' | Some u \<Rightarrow> u)"

definition nullText :: "string option \<Rightarrow> string" where
  \<comment> \<open>a header that may be \<^verbatim>\<open>null\<close>, as a template literal and the Headers constructor read it\<close>
  "nullText h = (case h of None \<Rightarrow> ''null'' | Some v \<Rightarrow> v)"

fun mapE :: "('a \<Rightarrow> error + 'b) \<Rightarrow> 'a list \<Rightarrow> error + 'b list" where
  "mapE f [] = Inr []"
| "mapE f (x # xs) =
     (case f x of
        Inl e \<Rightarrow> Inl e
      | Inr y \<Rightarrow> (case mapE f xs of Inl e \<Rightarrow> Inl e | Inr ys \<Rightarrow> Inr (y # ys)))"

fun filterE :: "('a \<Rightarrow> error + bool) \<Rightarrow> 'a list \<Rightarrow> error + 'a list" where
  "filterE p [] = Inr []"
| "filterE p (x # xs) =
     (case p x of
        Inl e \<Rightarrow> Inl e
      | Inr b \<Rightarrow> (case filterE p xs of Inl e \<Rightarrow> Inl e | Inr ys \<Rightarrow> Inr (if b then x # ys else ys)))"

fun uniqueFrom :: "'a list \<Rightarrow> 'a list \<Rightarrow> 'a list" where
  "uniqueFrom seen [] = []"
| "uniqueFrom seen (x # xs) =
     (if x \<in> set seen then uniqueFrom seen xs else x # uniqueFrom (x # seen) xs)"

definition unique :: "'a list \<Rightarrow> 'a list" where
  \<comment> \<open>\<^verbatim>\<open>[...new Set(xs)]\<close>: the first occurrence of each element, in order\<close>
  "unique xs = uniqueFrom [] xs"

fun joinLines :: "string list \<Rightarrow> string" where
  \<comment> \<open>\<^verbatim>\<open>xs.join('\n')\<close>\<close>
  "joinLines [] = []"
| "joinLines [x] = x"
| "joinLines (x # y # ys) = x @ CHR 0x0A # joinLines (y # ys)"

fun nthLink :: "string list \<Rightarrow> nat \<Rightarrow> string option" where
  \<comment> \<open>\<^verbatim>\<open>links[i]\<close>, \<^verbatim>\<open>undefined\<close> out of range\<close>
  "nthLink [] i = None"
| "nthLink (x # xs) 0 = Some x"
| "nthLink (x # xs) (Suc i) = nthLink xs i"

section \<open>LinkScraper\<close>

subsection \<open>extractLinks\<close>

definition fetchDocument :: "world \<Rightarrow> string \<Rightarrow> document io" where
  \<comment> \<open>\<^verbatim>\<open>fetch(url)\<close>, \<^verbatim>\<open>response.text()\<close> and the JSDOM of the text\<close>
  "fetchDocument w url = (\<lambda>evs. answer (Get url) (respondHtml w evs url) evs)"

definition selected :: "anchor \<Rightarrow> bool" where
  \<comment> \<open>\<^verbatim>\<open>a[href^="http://"], a[href^="https://"], a[href^="./"]\<close>\<close>
  "selected a =
     (startsWith (attr a) ''http://'' \<or> startsWith (attr a) ''https://'' \<or> startsWith (attr a) ''./'')"

definition toAbsolute :: "world \<Rightarrow> string \<Rightarrow> string \<Rightarrow> error + string" where
  "toAbsolute w baseUrl h =
     (if startsWith h ''./''
      then (case resolveUrl w h baseUrl of
              None \<Rightarrow> Inl (TypeError ''Invalid URL'')
            | Some u \<Rightarrow> Inr u)
      else Inr h)"

definition linksOf :: "world \<Rightarrow> document \<Rightarrow> error + string list" where
  "linksOf w doc =
     (case mapE (toAbsolute w (location doc)) (map href (filter selected (anchors doc))) of
        Inl e \<Rightarrow> Inl e
      | Inr links \<Rightarrow> Inr (unique (sort links)))"

definition extractLinks :: "world \<Rightarrow> string \<Rightarrow> string list io" where
  "extractLinks w url = bindIO (fetchDocument w url) (\<lambda>doc. liftE (linksOf w doc))"

subsection \<open>parseHtmlDates\<close>

fun okDaysLoop :: "string list \<Rightarrow> string list \<Rightarrow> error + string list" where
  "okDaysLoop [] tdElements = Inr []"
| "okDaysLoop (th # thElements) [] = Inl (TypeError ''tdElements[i].toLowerCase'')"
| "okDaysLoop (th # thElements) (td # tdElements) =
     (case okDaysLoop thElements tdElements of
        Inl e \<Rightarrow> Inl e
      | Inr okDays \<Rightarrow> Inr (if toLowerCase td = ''ok'' then th # okDays else okDays))"

definition parseHtmlDates :: "world \<Rightarrow> string \<Rightarrow> string list io" where
  "parseHtmlDates w url =
     bindIO (fetchDocument w url) (\<lambda>doc. liftE (okDaysLoop (ths doc) (tds doc)))"

subsection \<open>iterateMovieDates and getCheckUrl\<close>

definition getCheckUrl :: "world \<Rightarrow> string option \<Rightarrow> string \<Rightarrow> string \<Rightarrow> jsval io" where
  "getCheckUrl w secondLink day movieString =
     (let url = urlText secondLink @ ''/check?day='' @ day @ ''&movie='' @ movieString
      in (\<lambda>evs. answer (Get url) (respondJson w evs url) evs))"

definition getField :: "string \<Rightarrow> jsval \<Rightarrow> error + jsval" where
  \<comment> \<open>\<^verbatim>\<open>item.status\<close> and \<^verbatim>\<open>item.time\<close>: of these two names only an object has a property\<close>
  "getField name item =
     (case item of
        JUndefined \<Rightarrow> Inl (TypeError ''property of undefined'')
      | JNull \<Rightarrow> Inl (TypeError ''property of null'')
      | JObj props \<Rightarrow> Inr (case map_of props name of None \<Rightarrow> JUndefined | Some v \<Rightarrow> v)
      | _ \<Rightarrow> Inr JUndefined)"

definition removeZero :: "jsval \<Rightarrow> error + jsval list" where
  \<comment> \<open>\<^verbatim>\<open>content.filter(num => num.status !== 0)\<close>\<close>
  "removeZero content =
     (case content of
        JArr items \<Rightarrow>
          filterE (\<lambda>num. case getField ''status'' num of
                           Inl e \<Rightarrow> Inl e
                         | Inr status \<Rightarrow> Inr (status \<noteq> JNum 0)) items
      | _ \<Rightarrow> Inl (TypeError ''content.filter''))"

definition movieTitle :: "option_elem list \<Rightarrow> string \<Rightarrow> string option" where
  \<comment> \<open>\<^verbatim>\<open>options.find(option => option.value === movieString)\<close> and the text of what it finds\<close>
  "movieTitle options movieString =
     (case find (\<lambda>option. ovalue option = movieString) options of
        None \<Rightarrow> None
      | Some movieTitleOption \<Rightarrow> Some (otext movieTitleOption))"

definition movieTimes :: "option_elem list \<Rightarrow> string \<Rightarrow> jsval \<Rightarrow> error + showing list" where
  \<comment> \<open>the body of the loop over the movies, after the response has arrived\<close>
  "movieTimes options movieString content =
     (case removeZero content of
        Inl e \<Rightarrow> Inl e
      | Inr kept \<Rightarrow>
          (case mapE (getField ''time'') kept of
             Inl e \<Rightarrow> Inl e
           | Inr timesKept \<Rightarrow>
               Inr (map (\<lambda>time. \<lparr>timeOp = time, movie = movieTitle options movieString\<rparr>) timesKept)))"

fun movieLoop :: "world \<Rightarrow> string option \<Rightarrow> string \<Rightarrow> option_elem list \<Rightarrow> nat list \<Rightarrow>
    showing list \<Rightarrow> showing list io" where
  "movieLoop w secondLink dayString options [] data = returnIO data"
| "movieLoop w secondLink dayString options (m # ms) data =
     (let movieString = padStart2 (natToString m)
      in bindIO (getCheckUrl w secondLink dayString movieString) (\<lambda>content.
           case movieTimes options movieString content of
             Inl e \<Rightarrow> throwIO e
           | Inr found \<Rightarrow> movieLoop w secondLink dayString options ms (data @ found)))"

definition dayStringOf :: "string \<Rightarrow> error + string" where
  \<comment> \<open>\<^verbatim>\<open>Number(goodDayOption.value).toString().padStart(2, '0')\<close>\<close>
  "dayStringOf v =
     (case Number_js v of
        None \<Rightarrow> Inl (Unmodelled ''Number'')
      | Some goodDayNr \<Rightarrow>
          (case numToString goodDayNr of
             None \<Rightarrow> Inl (Unmodelled ''toString'')
           | Some s \<Rightarrow> Inr (padStart2 s)))"

definition iterateMovieDates :: "world \<Rightarrow> string option \<Rightarrow> string \<Rightarrow> showing list io" where
  "iterateMovieDates w secondLink goodDay =
     bindIO (fetchDocument w (urlText secondLink)) (\<lambda>doc.
       case movieSelect doc of
         None \<Rightarrow> throwIO (TypeError ''movies.options'')
       | Some options \<Rightarrow>
           (case daySelect doc of
              None \<Rightarrow> throwIO (TypeError ''days.options'')
            | Some dayOp \<Rightarrow>
                (case find (\<lambda>option. otext option = goodDay) dayOp of
                   None \<Rightarrow>
                     bindIO (emit (ConsoleError ''No dates available'' None)) (\<lambda>_. returnIO [])
                 | Some goodDayOption \<Rightarrow>
                     (case dayStringOf (ovalue goodDayOption) of
                        Inl e \<Rightarrow> throwIO e
                      | Inr dayString \<Rightarrow>
                          movieLoop w secondLink dayString options [1..<length options] []))))"

subsection \<open>restaurantAuthentication\<close>

definition restaurantAuthentication :: "world \<Rightarrow> string option \<Rightarrow> document io" where
  "restaurantAuthentication w thirdLink =
     (let loginUrl = urlText thirdLink @ ''/login''
      in bindIO (\<lambda>evs. answer (PostLogin loginUrl) (respondLogin w evs loginUrl) evs) (\<lambda>response.
           let cookie = setCookie response;
               redirectUrl = urlText thirdLink @ nullText (locationHeader response)
           in (\<lambda>evs. answer (GetWithCookie redirectUrl (nullText cookie))
                        (respondCookie w evs redirectUrl (nullText cookie)) evs)))"

subsection \<open>sortAvailability\<close>

definition filterDays :: "string list \<Rightarrow> string list \<Rightarrow> string list" where
  \<comment> \<open>the slot codes kept for the available days; \<open>dateInfo\<close> is lowered first, the codes are not\<close>
  "filterDays inputElements dateInfo =
     (let lowered = map toLowerCase dateInfo
      in filter (\<lambda>input. let firstThree = slice 0 3 input
                         in list_ex (\<lambda>day. startsWith day firstThree) lowered) inputElements)"

definition filteredTimes :: "string list \<Rightarrow> jsnum \<Rightarrow> string list" where
  "filteredTimes days hourTwo =
     filter (\<lambda>timeSlot. let timeStart = parseInt (slice 3 5 timeSlot)
                        in strictEq timeStart hourTwo) days"

definition window :: "string \<Rightarrow> error + string" where
  \<comment> \<open>the template \<^verbatim>\<open>${timeStart}-${timeEnd}\<close>\<close>
  "window timeSlot =
     (let timeStart = parseInt (slice 3 5 timeSlot);
          timeEnd = parseInt (sliceFrom 5 timeSlot)
      in case (numToString timeStart, numToString timeEnd) of
           (Some a, Some b) \<Rightarrow> Inr (a @ ''-'' @ b)
         | _ \<Rightarrow> Inl (Unmodelled ''toString''))"

fun filmLoop :: "string list \<Rightarrow> showing list \<Rightarrow> string list \<Rightarrow> error + string list" where
  "filmLoop days [] reservation = Inr reservation"
| "filmLoop days (film # films) reservation =
     (case timeOp film of
        JStr t \<Rightarrow>
          (let hour = parseInt (splitFirst (CHR '':'') t);
               hourTwo = plusTwo hour
           in case mapE window (filteredTimes days hourTwo) of
                Inl e \<Rightarrow> Inl e
              | Inr resTime \<Rightarrow> filmLoop days films (reservation @ resTime))
      | _ \<Rightarrow> Inl (TypeError ''film.timeOp.split''))"

definition sortAvailability :: "document \<Rightarrow> showing list option \<Rightarrow> string list \<Rightarrow>
    error + string list" where
  "sortAvailability restFree cinemaInfo dateInfo =
     (let inputElements = group1 restFree;
          days = filterDays inputElements dateInfo
      in case cinemaInfo of
           None \<Rightarrow> Inl (TypeError ''cinemaInfo is not iterable'')
         | Some films \<Rightarrow> filmLoop days films [])"

section \<open>Application\<close>

definition initial :: "world \<Rightarrow> string option \<Rightarrow> string list option io" where
  \<comment> \<open>\<open>argv2\<close> is \<^verbatim>\<open>process.argv[2]\<close>; the result is \<open>None\<close> (\<^verbatim>\<open>undefined\<close>) after a caught error\<close>
  "initial w argv2 =
     catchIO (bindIO (extractLinks w (urlText argv2)) (\<lambda>links. returnIO (Some links)))
       (\<lambda>e. bindIO (emit (ConsoleError ''Failed to fetch links: '' (Some e))) (\<lambda>_. returnIO None))"

subsection \<open>extractDates\<close>

fun collectDays :: "world \<Rightarrow> string list \<Rightarrow> string list list \<Rightarrow>
    (string list list \<times> error option) io" where
  \<comment> \<open>the loop inside \<^verbatim>\<open>try\<close>: the lists pushed so far, and the error that ended it, if any\<close>
  "collectDays w [] arrayDays = returnIO (arrayDays, None)"
| "collectDays w (nestedLink # rest) arrayDays =
     (\<lambda>evs. case parseHtmlDates w nestedLink evs of
              (Inl e, evs') \<Rightarrow> (Inr (arrayDays, Some e), evs')
            | (Inr okDays, evs') \<Rightarrow> collectDays w rest (arrayDays @ [okDays]) evs')"

definition tryDates :: "world \<Rightarrow> string option \<Rightarrow> (string list list \<times> error option) io" where
  "tryDates w firstLink =
     (\<lambda>evs. case extractLinks w (urlText firstLink) evs of
              (Inl e, evs') \<Rightarrow> (Inr ([], Some e), evs')
            | (Inr linksOnPage, evs') \<Rightarrow> collectDays w linksOnPage [] evs')"

definition goodDay :: "string list list \<Rightarrow> error + string list" where
  \<comment> \<open>\<^verbatim>\<open>arrayDays.shift().filter(day => arrayDays.every(okDays => okDays.includes(day)))\<close>\<close>
  "goodDay arrayDays =
     (case arrayDays of
        [] \<Rightarrow> Inl (TypeError ''arrayDays.shift().filter'')
      | first # others \<Rightarrow>
          Inr (filter (\<lambda>day. list_all (\<lambda>okDays. day \<in> set okDays) others) first))"

definition extractDates :: "world \<Rightarrow> string option \<Rightarrow> string list option io" where
  "extractDates w argv2 =
     bindIO (initial w argv2) (\<lambda>links.
       case links of
         None \<Rightarrow> bindIO (emit (ConsoleError ''No links fetched'' None)) (\<lambda>_. returnIO None)
       | Some ls \<Rightarrow>
           (let firstLink = nthLink ls 0
            in bindIO (tryDates w firstLink) (\<lambda>(arrayDays, caught).
                 bindIO (case caught of
                           None \<Rightarrow> returnIO ()
                         | Some e \<Rightarrow>
                             emit (ConsoleError (''Failed to fetch links from: '' @ urlText firstLink) None))
                   (\<lambda>_. case goodDay arrayDays of
                          Inl e \<Rightarrow> throwIO e
                        | Inr days \<Rightarrow>
                            bindIO (emit (ConsoleLog ''Scraping Date...OK'')) (\<lambda>_.
                              returnIO (Some days))))))"

subsection \<open>extractCinema and extractRestaurant\<close>

fun cinemaLoop :: "world \<Rightarrow> string option \<Rightarrow> string list \<Rightarrow> showing list \<Rightarrow> showing list io" where
  "cinemaLoop w secondLink [] film = returnIO film"
| "cinemaLoop w secondLink (day # goodDays) film =
     bindIO (iterateMovieDates w secondLink day) (\<lambda>dayData.
       cinemaLoop w secondLink goodDays (film @ dayData))"

definition extractCinema :: "world \<Rightarrow> string option \<Rightarrow> string list \<Rightarrow> showing list option io" where
  "extractCinema w argv2 goodDays =
     bindIO (initial w argv2) (\<lambda>links.
       case links of
         None \<Rightarrow> bindIO (emit (ConsoleError ''No links fetched'' None)) (\<lambda>_. returnIO None)
       | Some ls \<Rightarrow>
           bindIO (cinemaLoop w (nthLink ls 1) goodDays []) (\<lambda>film.
             bindIO (emit (ConsoleLog ''Scraping Cinema...OK'')) (\<lambda>_. returnIO (Some film))))"

definition extractRestaurant :: "world \<Rightarrow> string option \<Rightarrow> showing list option \<Rightarrow> string list \<Rightarrow>
    string list option io" where
  "extractRestaurant w argv2 cinemaInfo dateInfo =
     bindIO (initial w argv2) (\<lambda>links.
       case links of
         None \<Rightarrow> bindIO (emit (ConsoleError ''No links fetched'' None)) (\<lambda>_. returnIO None)
       | Some ls \<Rightarrow>
           bindIO (restaurantAuthentication w (nthLink ls 2)) (\<lambda>restData.
             bindIO (liftE (sortAvailability restData cinemaInfo dateInfo)) (\<lambda>restFree.
               bindIO (emit (ConsoleLog ''Scraping Restaurant...OK'')) (\<lambda>_.
                 returnIO (Some restFree)))))"

subsection \<open>run\<close>

definition undefinedText :: "string option \<Rightarrow> string" where
  \<comment> \<open>a title that may be \<^verbatim>\<open>undefined\<close>, in a template literal\<close>
  "undefinedText t = (case t of None \<Rightarrow> ''undefined'' | Some s \<Rightarrow> s)"

definition suggestion :: "string \<Rightarrow> string option \<Rightarrow> string \<Rightarrow> string \<Rightarrow> string" where
  \<comment> \<open>the template literal of \<^verbatim>\<open>result\<close>\<close>
  "suggestion date title time restaurant =
     ''On '' @ date @ '', \"'' @ undefinedText title @ ''\" Begins at '' @ time
       @ '', and there is a free table between '' @ restaurant"

definition restaurantTime :: "jsnum \<Rightarrow> string list \<Rightarrow> error + string list" where
  "restaurantTime movieStartTime restaurantInfo =
     filterE (\<lambda>restaurant.
                case Number_js (splitFirst (CHR ''-'') restaurant) of
                  None \<Rightarrow> Inl (Unmodelled ''Number'')
                | Some restaurantStartTime \<Rightarrow> Inr (\<not> strictEq movieStartTime restaurantStartTime))
       restaurantInfo"

fun showingLoop :: "string \<Rightarrow> showing list \<Rightarrow> string list option \<Rightarrow> string list \<Rightarrow>
    error + string list" where
  "showingLoop date [] restaurantInfo results = Inr results"
| "showingLoop date (cinema # rest) restaurantInfo results =
     (case timeOp cinema of
        JStr t \<Rightarrow>
          (case restaurantInfo of
             None \<Rightarrow> Inl (TypeError ''restaurantInfo.filter'')
           | Some tables \<Rightarrow>
               (case Number_js (splitFirst (CHR '':'') t) of
                  None \<Rightarrow> Inl (Unmodelled ''Number'')
                | Some movieStartTime \<Rightarrow>
                    (case restaurantTime movieStartTime tables of
                       Inl e \<Rightarrow> Inl e
                     | Inr free \<Rightarrow>
                         showingLoop date rest restaurantInfo
                           (results @ map (suggestion date (movie cinema) t) free))))
      | _ \<Rightarrow> Inl (TypeError ''cinema.timeOp.split''))"

fun dateLoop :: "string list \<Rightarrow> showing list option \<Rightarrow> string list option \<Rightarrow> string list \<Rightarrow>
    error + string list" where
  "dateLoop [] cinemaInfo restaurantInfo results = Inr results"
| "dateLoop (date # rest) cinemaInfo restaurantInfo results =
     (case cinemaInfo of
        None \<Rightarrow> Inl (TypeError ''cinemaInfo is not iterable'')
      | Some films \<Rightarrow>
          (case showingLoop date films restaurantInfo results of
             Inl e \<Rightarrow> Inl e
           | Inr results' \<Rightarrow> dateLoop rest cinemaInfo restaurantInfo results'))"

definition finalResult :: "string list \<Rightarrow> showing list option \<Rightarrow> string list option \<Rightarrow>
    error + string" where
  \<comment> \<open>the nested loops of \<^verbatim>\<open>run\<close> and the text made of their results\<close>
  "finalResult dateInfo cinemaInfo restaurantInfo =
     (case dateLoop dateInfo cinemaInfo restaurantInfo [] of
        Inl e \<Rightarrow> Inl e
      | Inr results \<Rightarrow> Inr (CHR 0x0A # ''Suggestions:'' @ CHR 0x0A # joinLines (unique results)))"

definition run :: "world \<Rightarrow> string option \<Rightarrow> string io" where
  "run w argv2 =
     bindIO (emit (ConsoleLog ''Scraping Links...OK'')) (\<lambda>_.
       bindIO (extractDates w argv2) (\<lambda>dateInfo.
         case dateInfo of
           None \<Rightarrow> throwIO (TypeError ''dateInfo.length'')
         | Some days \<Rightarrow>
             if length days = 0 then returnIO ''No Dates Available''
             else bindIO (extractCinema w argv2 days) (\<lambda>cinemaInfo.
                    bindIO (extractRestaurant w argv2 cinemaInfo days) (\<lambda>restaurantInfo.
                      liftE (finalResult days cinemaInfo restaurantInfo)))))"

definition app :: "world \<Rightarrow> string option \<Rightarrow> nat io" where
  \<comment> \<open>the entry point: prints what \<^verbatim>\<open>run\<close> returns; on an error prints it and exits with 1\<close>
  "app w argv2 =
     catchIO (bindIO (run w argv2) (\<lambda>out. bindIO (emit (ConsoleLog out)) (\<lambda>_. returnIO 0)))
       (\<lambda>e. bindIO (emit (ConsoleError [] (Some e))) (\<lambda>_. returnIO 1))"

section \<open>The quantities the claims speak of\<close>

definition showingHour :: "showing \<Rightarrow> jsnum" where
  \<comment> \<open>the hour of a Showing, as \<^verbatim>\<open>sortAvailability\<close> reads it\<close>
  "showingHour film =
     (case timeOp film of JStr t \<Rightarrow> parseInt (splitFirst (CHR '':'') t) | _ \<Rightarrow> NaN)"

definition slotStartHour :: "string \<Rightarrow> jsnum" where
  \<comment> \<open>the start hour a slot code encodes: its characters 3 and 4\<close>
  "slotStartHour timeSlot = parseInt (slice 3 5 timeSlot)"

definition digitChar :: "nat \<Rightarrow> char" where
  \<comment> \<open>the character of a decimal digit\<close>
  "digitChar n = char_of (48 + n)"





definition fieldOf :: "string \<Rightarrow> jsval \<Rightarrow> jsval" where
  \<comment> \<open>what reading the property gives where the reading does not throw\<close>
  "fieldOf name item =
     (case item of
        JObj props \<Rightarrow> (case map_of props name of None \<Rightarrow> JUndefined | Some v \<Rightarrow> v)
      | _ \<Rightarrow> JUndefined)"

definition dateStageEnd :: "string list \<Rightarrow> error option \<Rightarrow> event list" where
  \<comment> \<open>what \<^verbatim>\<open>extractDates\<close> prints after its \<^verbatim>\<open>try\<close> block, when the filter returns\<close>
  "dateStageEnd links caught =
     (case caught of
        None \<Rightarrow> []
      | Some e \<Rightarrow> [ConsoleError (''Failed to fetch links from: '' @ urlText (nthLink links 0)) None])
     @ [ConsoleLog ''Scraping Date...OK'']"

definition extends :: "'a io \<Rightarrow> bool" where
  \<comment> \<open>the computation only adds events, after those already there\<close>
  "extends m = (\<forall>evs. \<exists>more. snd (m evs) = evs @ more)"

section \<open>The specification's wording\<close>

text \<open>
  Definitions that follow the words of the specification rather than the code; the code is
  compared with them below.
\<close>

definition matchesIgnoringCase :: "string \<Rightarrow> string \<Rightarrow> bool" where
  \<comment> \<open>the prefix is the start of the day's name, letter case ignored on both sides\<close>
  "matchesIgnoringCase prefix day = startsWith (toLowerCase day) (toLowerCase prefix)"

definition specSentence :: "string \<Rightarrow> string \<Rightarrow> string \<Rightarrow> string \<Rightarrow> string" where
  \<comment> \<open>the literal form of a suggestion sentence, as the specification gives it\<close>
  "specSentence day title time table =
     ''On '' @ day @ '', \"'' @ title @ ''\" begins at '' @ time
       @ '', and there is a free table between '' @ table @ ''.''"

definition absoluteUrl :: "string \<Rightarrow> bool" where
  \<comment> \<open>an absolute URL of the web: the scheme http or https, \<^verbatim>\<open>://\<close>, and a host that is not empty\<close>
  "absoluteUrl u =
     (case (if startsWith u ''http://'' then Some (drop 7 u)
            else if startsWith u ''https://'' then Some (drop 8 u)
            else None) of
        None \<Rightarrow> False
      | Some host \<Rightarrow> host \<noteq> [] \<and> hd host \<notin> set ''/?#'')"

section \<open>Sample sites\<close>

definition emptyDocument :: document where
  "emptyDocument =
     \<lparr>location = [], anchors = [], ths = [], tds = [], movieSelect = None, daySelect = None,
      group1 = []\<rparr>"

definition noSite :: world where
  \<comment> \<open>every request is rejected\<close>
  "noSite =
     \<lparr>respondHtml = (\<lambda>_ _. None), respondJson = (\<lambda>_ _. None), respondLogin = (\<lambda>_ _. None),
      respondCookie = (\<lambda>_ _ _. None), resolveUrl = (\<lambda>_ _. None)\<rparr>"

definition startPage :: document where
  \<comment> \<open>four anchors: two to the same page, one the DOM left unresolved, one that is not selected\<close>
  "startPage =
     emptyDocument
       \<lparr>location := ''https://x.test/a/'',
        anchors :=
          [\<lparr>attr = ''./cinema'', href = ''https://x.test/a/cinema''\<rparr>,
           \<lparr>attr = ''./calendar/'', href = ''./calendar/''\<rparr>,
           \<lparr>attr = ''https://x.test/a/cinema'', href = ''https://x.test/a/cinema''\<rparr>,
           \<lparr>attr = ''#top'', href = ''https://x.test/a/#top''\<rparr>]\<rparr>"

definition linkSite :: world where
  "linkSite =
     noSite
       \<lparr>respondHtml := (\<lambda>_ url. if url = ''https://x.test/a/'' then Some startPage else None),
        resolveUrl := (\<lambda>h b. if startsWith b ''http'' then Some (b @ drop 2 h) else None)\<rparr>"

definition brokenLinkPage :: document where
  \<comment> \<open>the second \<^verbatim>\<open>href\<close> is no URL: the DOM cannot parse it and gives the attribute as written\<close>
  "brokenLinkPage =
     emptyDocument
       \<lparr>location := ''https://x.test/b/'',
        anchors :=
          [\<lparr>attr = ''./cinema'', href = ''https://x.test/b/cinema''\<rparr>,
           \<lparr>attr = ''http://'', href = ''http://''\<rparr>]\<rparr>"

definition brokenLinkSite :: world where
  "brokenLinkSite =
     noSite
       \<lparr>respondHtml := (\<lambda>_ url. if url = ''https://x.test/b/'' then Some brokenLinkPage else None)\<rparr>"

definition bookingPage :: document where
  "bookingPage = emptyDocument\<lparr>group1 := [''fri1416'', ''fri1820'', ''sat1820'', ''fri1830'']\<rparr>"

definition silentLogin :: world where
  "silentLogin =
     noSite
       \<lparr>respondLogin := (\<lambda>_ _. Some \<lparr>setCookie = None, locationHeader = None\<rparr>),
        respondCookie := (\<lambda>_ _ _. Some bookingPage)\<rparr>"

definition checkAnswers :: "string \<Rightarrow> jsval option" where
  \<comment> \<open>the answers of the sample cinema to the status requests for Friday\<close>
  "checkAnswers url =
     (if url = ''https://c.test/cinema/check?day=05&movie=01''
      then Some (JArr [JObj [(''status'', JNum 0), (''time'', JStr ''10:00'')],
                       JObj [(''status'', JNum 1), (''time'', JStr ''16:00'')]])
      else if url = ''https://c.test/cinema/check?day=05&movie=02''
      then Some (JArr [JObj [(''status'', JNum 1), (''time'', JStr ''18:00'')]])
      else None)"

definition cinemaSite :: "option_elem list \<Rightarrow> world" where
  "cinemaSite movies =
     noSite
       \<lparr>respondHtml :=
          (\<lambda>_ url. if url = ''https://c.test/cinema''
                    then Some (emptyDocument
                      \<lparr>movieSelect := Some movies,
                       daySelect := Some [\<lparr>ovalue = [], otext = ''--- Pick a Day ---''\<rparr>,
                                          \<lparr>ovalue = ''05'', otext = ''Friday''\<rparr>]\<rparr>)
                    else None),
        respondJson := (\<lambda>_ url. checkAnswers url)\<rparr>"

definition personPage :: "string list \<Rightarrow> document" where
  \<comment> \<open>the calendar of one friend: the status cells of the three days\<close>
  "personPage cells = emptyDocument\<lparr>ths := [''Friday'', ''Saturday'', ''Sunday''], tds := cells\<rparr>"

definition gatheringPages :: "string list \<Rightarrow> string list \<Rightarrow> string \<Rightarrow> document option" where
  "gatheringPages paul peter url =
     (if url = ''https://g.test/'' then
        Some (emptyDocument
          \<lparr>location := ''https://g.test/'',
           anchors := [\<lparr>attr = ''./cinema'', href = ''https://g.test/cinema''\<rparr>,
                       \<lparr>attr = ''./calendar/'', href = ''https://g.test/calendar/''\<rparr>,
                       \<lparr>attr = ''./dinner'', href = ''https://g.test/dinner''\<rparr>]\<rparr>)
      else if url = ''https://g.test/calendar/'' then
        Some (emptyDocument
          \<lparr>location := ''https://g.test/calendar/'',
           anchors := [\<lparr>attr = ''./paul.html'', href = ''https://g.test/calendar/paul.html''\<rparr>,
                       \<lparr>attr = ''./peter.html'', href = ''https://g.test/calendar/peter.html''\<rparr>]\<rparr>)
      else if url = ''https://g.test/calendar/paul.html'' then Some (personPage paul)
      else if url = ''https://g.test/calendar/peter.html'' then Some (personPage peter)
      else if url = ''https://g.test/cinema'' then
        Some (emptyDocument
          \<lparr>movieSelect := Some [\<lparr>ovalue = [], otext = ''--- Pick a Movie ---''\<rparr>,
                                 \<lparr>ovalue = ''01'', otext = ''Keep Your Seats, Please''\<rparr>,
                                 \<lparr>ovalue = ''02'', otext = ''A Day at the Races''\<rparr>],
           daySelect := Some [\<lparr>ovalue = [], otext = ''--- Pick a Day ---''\<rparr>,
                               \<lparr>ovalue = ''05'', otext = ''Friday''\<rparr>,
                               \<lparr>ovalue = ''06'', otext = ''Saturday''\<rparr>,
                               \<lparr>ovalue = ''07'', otext = ''Sunday''\<rparr>]\<rparr>)
      else None)"

definition gatheringChecks :: "string \<Rightarrow> jsval option" where
  "gatheringChecks url =
     (if url = ''https://g.test/cinema/check?day=05&movie=01''
      then Some (JArr [JObj [(''status'', JNum 1), (''day'', JStr ''05''), (''time'', JStr ''16:00''),
                             (''movie'', JStr ''01'')],
                       JObj [(''status'', JNum 0), (''day'', JStr ''05''), (''time'', JStr ''18:00''),
                             (''movie'', JStr ''01'')]])
      else if url = ''https://g.test/cinema/check?day=05&movie=02''
      then Some (JArr [JObj [(''status'', JNum 1), (''day'', JStr ''05''), (''time'', JStr ''16:00''),
                             (''movie'', JStr ''02'')]])
      else None)"

definition gatheringBooking :: document where
  "gatheringBooking =
     emptyDocument\<lparr>group1 := [''fri1416'', ''fri1618'', ''fri1820'', ''sat1820'', ''sun1416'']\<rparr>"

definition gatheringSite :: "string list \<Rightarrow> string list \<Rightarrow> world" where
  \<comment> \<open>a start page, two calendars, a cinema with two movies and a restaurant behind its login\<close>
  "gatheringSite paul peter =
     \<lparr>respondHtml = (\<lambda>_ url. gatheringPages paul peter url),
      respondJson = (\<lambda>_ url. gatheringChecks url),
      respondLogin =
        (\<lambda>_ url. if url = ''https://g.test/dinner/login''
                  then Some \<lparr>setCookie = Some ''sid=1'', locationHeader = Some ''/login/booking''\<rparr>
                  else None),
      respondCookie =
        (\<lambda>_ url cookie. if url = ''https://g.test/dinner/login/booking'' \<and> cookie = ''sid=1''
                         then Some gatheringBooking else None),
      resolveUrl = (\<lambda>_ _. None)\<rparr>"

section \<open>Properties\<close>

subsection \<open>Lists: the Set of a list, a map that may throw\<close>

lemma set_uniqueFrom: "set (uniqueFrom seen xs) = set xs - set seen"
  by (induction seen xs rule: uniqueFrom.induct) auto

lemma distinct_uniqueFrom: "distinct (uniqueFrom seen xs)"
  by (induction seen xs rule: uniqueFrom.induct) (auto simp: set_uniqueFrom)

lemma sorted_uniqueFrom: "sorted xs \<Longrightarrow> sorted (uniqueFrom seen xs)"
  by (induction seen xs rule: uniqueFrom.induct) (auto simp: set_uniqueFrom)

lemma set_unique: "set (unique xs) = set xs"
  by (simp add: unique_def set_uniqueFrom)

lemma distinct_unique: "distinct (unique xs)"
  by (simp add: unique_def distinct_uniqueFrom)

lemma sorted_unique: "sorted xs \<Longrightarrow> sorted (unique xs)"
  by (simp add: unique_def sorted_uniqueFrom)

lemma unique_sort_cong:
  fixes xs ys :: "'a::linorder list"
  assumes "set xs = set ys"
  shows "unique (sort xs) = unique (sort ys)"
proof (rule sorted_distinct_set_unique)
  show "set (unique (sort xs)) = set (unique (sort ys))"
    using assms by (simp add: set_unique)
qed (simp_all add: sorted_unique distinct_unique)

lemma unique_sort_fixed:
  fixes xs :: "'a::linorder list"
  shows "unique (sort (unique (sort xs))) = unique (sort xs)"
  by (rule unique_sort_cong) (simp add: set_unique)

lemma mapE_map:
  assumes "mapE f xs = Inr ys"
  shows "map f xs = map Inr ys"
  using assms by (induction xs arbitrary: ys) (auto split: sum.splits)

lemma mapE_set:
  assumes "mapE f xs = Inr ys"
  shows "Inr ` set ys = f ` set xs"
proof -
  have "set (map f xs) = set (map Inr ys)"
    using mapE_map [OF assms] by simp
  then show ?thesis by simp
qed

lemma mapE_total:
  assumes "\<forall>x\<in>set xs. \<exists>y. f x = Inr y"
  shows "\<exists>ys. mapE f xs = Inr ys"
  using assms by (induction xs) auto

lemma mapE_defined:
  assumes "mapE f xs = Inr ys" and "x \<in> set xs"
  shows "\<exists>y. f x = Inr y"
  using assms by (induction xs arbitrary: ys) (auto split: sum.splits)

lemma mapE_same_set:
  assumes "mapE f xs = Inr ys" and "set xs' = set xs"
  shows "\<exists>ys'. mapE f xs' = Inr ys' \<and> set ys' = set ys"
proof -
  have "\<forall>x\<in>set xs'. \<exists>y. f x = Inr y"
    using assms mapE_defined [of f xs ys] by blast
  then obtain ys' where m: "mapE f xs' = Inr ys'"
    using mapE_total by blast
  have "Inr ` set ys' = f ` set xs'" by (rule mapE_set [OF m])
  also have "\<dots> = f ` set xs" by (simp add: assms(2))
  also have "\<dots> = Inr ` set ys" by (rule mapE_set [OF assms(1), symmetric])
  finally have "set ys' = set ys" by (simp add: inj_image_eq_iff)
  with m show ?thesis by blast
qed

subsection \<open>Link extraction\<close>

lemma linksOf_same_anchors:
  assumes "linksOf w doc = Inr links"
    and "set (anchors doc') = set (anchors doc)" and "location doc' = location doc"
  shows "linksOf w doc' = Inr links"
proof -
  let ?f = "toAbsolute w (location doc)"
  obtain ys where ys: "mapE ?f (map href (filter selected (anchors doc))) = Inr ys"
    and links: "links = unique (sort ys)"
    using assms(1) by (auto simp: linksOf_def split: sum.splits)
  have "set (map href (filter selected (anchors doc')))
      = set (map href (filter selected (anchors doc)))"
    using assms(2) by simp
  from mapE_same_set [OF ys this]
  obtain ys' where "mapE ?f (map href (filter selected (anchors doc'))) = Inr ys'"
    and "set ys' = set ys"
    by blast
  then show ?thesis
    using links unique_sort_cong [of ys' ys] by (simp add: linksOf_def assms(3))
qed

lemma linksOf_sorted_distinct:
  assumes "linksOf w doc = Inr links"
  shows "sorted links \<and> distinct links"
  using assms by (auto simp: linksOf_def sorted_unique distinct_unique split: sum.splits)

lemma toAbsolute_Inr:
  "toAbsolute w b h = Inr l \<longleftrightarrow>
     (if startsWith h ''./'' then resolveUrl w h b = Some l else l = h)"
  by (auto simp: toAbsolute_def split: option.splits)

lemma linksOf_members:
  assumes "linksOf w doc = Inr links"
  shows "l \<in> set links \<longleftrightarrow>
     (\<exists>a\<in>set (anchors doc). selected a \<and>
        (if startsWith (href a) ''./'' then resolveUrl w (href a) (location doc) = Some l
         else l = href a))"
proof -
  obtain ys
    where ys: "mapE (toAbsolute w (location doc)) (map href (filter selected (anchors doc))) = Inr ys"
    and links: "links = unique (sort ys)"
    using assms by (auto simp: linksOf_def split: sum.splits)
  have e: "Inr ` set ys = toAbsolute w (location doc) ` set (map href (filter selected (anchors doc)))"
    by (rule mapE_set [OF ys])
  have "l \<in> set links \<longleftrightarrow> (Inr l :: error + string) \<in> Inr ` set ys"
    by (auto simp: links set_unique)
  then have "l \<in> set links \<longleftrightarrow>
      Inr l \<in> toAbsolute w (location doc) ` set (map href (filter selected (anchors doc)))"
    by (simp only: e)
  moreover have "Inr l \<in> toAbsolute w (location doc) ` set (map href (filter selected (anchors doc)))
      \<longleftrightarrow> (\<exists>a\<in>set (anchors doc). selected a \<and> toAbsolute w (location doc) (href a) = Inr l)"
  proof
    assume "Inr l \<in> toAbsolute w (location doc) ` set (map href (filter selected (anchors doc)))"
    then obtain h where hl: "Inr l = toAbsolute w (location doc) h"
      and hm: "h \<in> set (map href (filter selected (anchors doc)))"
      by (rule imageE)
    from hm obtain a where "a \<in> set (anchors doc)" "selected a" "h = href a" by auto
    then show "\<exists>a\<in>set (anchors doc). selected a \<and> toAbsolute w (location doc) (href a) = Inr l"
      using hl [symmetric] by blast
  next
    assume "\<exists>a\<in>set (anchors doc). selected a \<and> toAbsolute w (location doc) (href a) = Inr l"
    then obtain a where "a \<in> set (anchors doc)" "selected a"
      and t: "toAbsolute w (location doc) (href a) = Inr l"
      by blast
    then have "href a \<in> set (map href (filter selected (anchors doc)))" by simp
    then show "Inr l \<in> toAbsolute w (location doc) ` set (map href (filter selected (anchors doc)))"
      using t by (metis image_eqI)
  qed
  ultimately have "l \<in> set links \<longleftrightarrow>
      (\<exists>a\<in>set (anchors doc). selected a \<and> toAbsolute w (location doc) (href a) = Inr l)"
    by (rule trans)
  then show ?thesis by (simp only: toAbsolute_Inr)
qed

lemma linksOf_total:
  assumes "\<forall>a\<in>set (anchors doc). selected a \<and> startsWith (href a) ''./''
      \<longrightarrow> resolveUrl w (href a) (location doc) \<noteq> None"
  shows "\<exists>links. linksOf w doc = Inr links"
proof -
  have "\<forall>h\<in>set (map href (filter selected (anchors doc))).
      \<exists>u. toAbsolute w (location doc) h = Inr u"
    using assms by (auto simp: toAbsolute_def split: option.splits)
  then obtain ys where "mapE (toAbsolute w (location doc)) (map href (filter selected (anchors doc))) = Inr ys"
    using mapE_total by blast
  then show ?thesis by (simp add: linksOf_def)
qed

lemma extractLinks_served:
  assumes "respondHtml w evs url = Some doc"
  shows "extractLinks w url evs = (linksOf w doc, evs @ [Request (Get url)])"
  using assms by (simp add: extractLinks_def bindIO_def fetchDocument_def answer_def liftE_def)

text \<open>
  Claim C8, as stated, at a page with the anchors \<^verbatim>\<open><a href="./cinema">\<close> and
  \<^verbatim>\<open><a href="http://">\<close>. The second anchor is selected, since its attribute begins with
  \<^verbatim>\<open>http://\<close>. Its \<^verbatim>\<open>href\<close> property is the attribute as written, because \<^verbatim>\<open>http://\<close> has no
  host and does not parse as a URL, and it does not begin with \<^verbatim>\<open>./\<close>, so it is returned
  unchanged: the list holds a string that is not an absolute URL.
\<close>

theorem extractLinks_absolute_counterexample:
  "extractLinks brokenLinkSite ''https://x.test/b/'' [] =
     (Inr [''http://'', ''https://x.test/b/cinema''], [Request (Get ''https://x.test/b/'')])
   \<and> \<not> absoluteUrl ''http://''
   \<and> absoluteUrl ''https://x.test/b/cinema''"
  by code_simp

text \<open>
  Claim C8, amended. For every document that is served, link extraction returns a list unless
  \<^verbatim>\<open>new URL\<close> throws on a link the DOM left relative. The list is sorted in the lexicographic
  order of the strings and has no duplicate, and its members are exactly the \<^verbatim>\<open>href\<close> values
  of the selected anchors, one that begins with \<^verbatim>\<open>./\<close> replaced by its resolution against the
  page's URL: so the list is determined by the page. Sorting and deduplicating it again changes
  nothing; a second extraction from the same document returns the same list; so does an
  extraction from a document with the same anchors in another order (or repeated). The links are
  absolute URLs where the \<^verbatim>\<open>href\<close> values the DOM gives and the results of \<^verbatim>\<open>new URL\<close> are.
\<close>

theorem extractLinks_sorted_unique:
  assumes "respondHtml w evs url = Some doc"
    and "\<forall>a\<in>set (anchors doc). selected a \<and> startsWith (href a) ''./''
      \<longrightarrow> resolveUrl w (href a) (location doc) \<noteq> None"
  shows "\<exists>links. extractLinks w url evs = (Inr links, evs @ [Request (Get url)])
    \<and> sorted links \<and> distinct links
    \<and> (\<forall>l. l \<in> set links \<longleftrightarrow>
          (\<exists>a\<in>set (anchors doc). selected a \<and>
             (if startsWith (href a) ''./'' then resolveUrl w (href a) (location doc) = Some l
              else l = href a)))
    \<and> unique (sort links) = links
    \<and> (\<forall>url2 evs2. respondHtml w evs2 url2 = Some doc
          \<longrightarrow> fst (extractLinks w url2 evs2) = Inr links)
    \<and> (\<forall>doc'. set (anchors doc') = set (anchors doc) \<and> location doc' = location doc
          \<longrightarrow> linksOf w doc' = Inr links)
    \<and> ((\<forall>a\<in>set (anchors doc). selected a \<and> \<not> startsWith (href a) ''./''
            \<longrightarrow> absoluteUrl (href a))
        \<and> (\<forall>h u. resolveUrl w h (location doc) = Some u \<longrightarrow> absoluteUrl u)
          \<longrightarrow> (\<forall>l\<in>set links. absoluteUrl l))"
proof -
  obtain links where l: "linksOf w doc = Inr links"
    using linksOf_total [OF assms(2)] by blast
  have run: "extractLinks w url evs = (Inr links, evs @ [Request (Get url)])"
    using extractLinks_served [OF assms(1)] l by simp
  have sd: "sorted links \<and> distinct links" by (rule linksOf_sorted_distinct [OF l])
  have members: "\<forall>l. l \<in> set links \<longleftrightarrow>
          (\<exists>a\<in>set (anchors doc). selected a \<and>
             (if startsWith (href a) ''./'' then resolveUrl w (href a) (location doc) = Some l
              else l = href a))"
    using linksOf_members [OF l] by blast
  have fixed: "unique (sort links) = links"
  proof -
    obtain ys where "links = unique (sort ys)"
      using l by (auto simp: linksOf_def split: sum.splits)
    then show ?thesis by (simp only: unique_sort_fixed)
  qed
  have twice: "\<forall>url2 evs2. respondHtml w evs2 url2 = Some doc
          \<longrightarrow> fst (extractLinks w url2 evs2) = Inr links"
    using l by (simp add: extractLinks_served)
  have perm: "\<forall>doc'. set (anchors doc') = set (anchors doc) \<and> location doc' = location doc
          \<longrightarrow> linksOf w doc' = Inr links"
    using linksOf_same_anchors [OF l] by blast
  have abs: "(\<forall>a\<in>set (anchors doc). selected a \<and> \<not> startsWith (href a) ''./''
            \<longrightarrow> absoluteUrl (href a))
        \<and> (\<forall>h u. resolveUrl w h (location doc) = Some u \<longrightarrow> absoluteUrl u)
          \<longrightarrow> (\<forall>l\<in>set links. absoluteUrl l)"
  proof (intro impI ballI)
    fix x
    assume c: "(\<forall>a\<in>set (anchors doc). selected a \<and> \<not> startsWith (href a) ''./''
            \<longrightarrow> absoluteUrl (href a))
        \<and> (\<forall>h u. resolveUrl w h (location doc) = Some u \<longrightarrow> absoluteUrl u)"
      and "x \<in> set links"
    then obtain a where a: "a \<in> set (anchors doc)" "selected a"
      and x: "if startsWith (href a) ''./'' then resolveUrl w (href a) (location doc) = Some x
              else x = href a"
      using members by blast
    show "absoluteUrl x"
    proof (cases "startsWith (href a) ''./''")
      case True
      then have "resolveUrl w (href a) (location doc) = Some x" using x by simp
      then show ?thesis using c by blast
    next
      case False
      then have "x = href a" using x by simp
      then show ?thesis using c a False by blast
    qed
  qed
  from run sd members fixed twice perm abs show ?thesis by blast
qed

theorem extractLinks_sorted_unique_witness:
  "respondHtml linkSite [] ''https://x.test/a/'' = Some startPage
   \<and> list_all (\<lambda>a. \<not> (selected a \<and> startsWith (href a) ''./'')
                   \<or> resolveUrl linkSite (href a) (location startPage) \<noteq> None) (anchors startPage)
   \<and> list_all (\<lambda>a. \<not> (selected a \<and> \<not> startsWith (href a) ''./'') \<or> absoluteUrl (href a))
       (anchors startPage)
   \<and> extractLinks linkSite ''https://x.test/a/'' [] =
       (Inr [''https://x.test/a/calendar/'', ''https://x.test/a/cinema''],
        [Request (Get ''https://x.test/a/'')])
   \<and> sorted [''https://x.test/a/calendar/'', ''https://x.test/a/cinema'']
   \<and> distinct [''https://x.test/a/calendar/'', ''https://x.test/a/cinema'']
   \<and> (\<exists>a\<in>set (anchors startPage). selected a \<and> startsWith (href a) ''./''
        \<and> resolveUrl linkSite (href a) (location startPage) = Some ''https://x.test/a/calendar/'')
   \<and> fst (extractLinks linkSite ''https://x.test/a/'' [ConsoleLog ''again'']) =
       Inr [''https://x.test/a/calendar/'', ''https://x.test/a/cinema'']
   \<and> linksOf linkSite (startPage\<lparr>anchors := rev (anchors startPage)\<rparr>) =
       Inr [''https://x.test/a/calendar/'', ''https://x.test/a/cinema'']
   \<and> list_all absoluteUrl [''https://x.test/a/calendar/'', ''https://x.test/a/cinema'']"
proof -
  let ?links = "[''https://x.test/a/calendar/'', ''https://x.test/a/cinema'']"
  have page: "respondHtml linkSite [] ''https://x.test/a/'' = Some startPage"
    by (simp add: linkSite_def noSite_def)
  have again: "respondHtml linkSite [ConsoleLog ''again''] ''https://x.test/a/'' = Some startPage"
    by (simp add: linkSite_def noSite_def)
  have ok: "list_all (\<lambda>a. \<not> (selected a \<and> startsWith (href a) ''./'')
                   \<or> resolveUrl linkSite (href a) (location startPage) \<noteq> None) (anchors startPage)"
    by code_simp
  then have ok': "\<forall>a\<in>set (anchors startPage). selected a \<and> startsWith (href a) ''./''
      \<longrightarrow> resolveUrl linkSite (href a) (location startPage) \<noteq> None"
    unfolding list_all_iff by blast
  have dom: "list_all (\<lambda>a. \<not> (selected a \<and> \<not> startsWith (href a) ''./'') \<or> absoluteUrl (href a))
       (anchors startPage)"
    by code_simp
  then have dom': "\<forall>a\<in>set (anchors startPage). selected a \<and> \<not> startsWith (href a) ''./''
      \<longrightarrow> absoluteUrl (href a)"
    unfolding list_all_iff by blast
  have run: "extractLinks linkSite ''https://x.test/a/'' [] =
     (Inr ?links, [Request (Get ''https://x.test/a/'')])"
    by code_simp
  have res: "\<forall>h u. resolveUrl linkSite h (location startPage) = Some u \<longrightarrow> absoluteUrl u"
    by (simp add: linkSite_def noSite_def startPage_def emptyDocument_def startsWith_def
        absoluteUrl_def)
  from extractLinks_sorted_unique [OF page ok']
  obtain links where l: "extractLinks linkSite ''https://x.test/a/'' [] =
        (Inr links, [] @ [Request (Get ''https://x.test/a/'')])"
    and sd: "sorted links" "distinct links"
    and members: "\<forall>l. l \<in> set links \<longleftrightarrow>
          (\<exists>a\<in>set (anchors startPage). selected a \<and>
             (if startsWith (href a) ''./''
              then resolveUrl linkSite (href a) (location startPage) = Some l
              else l = href a))"
    and twice: "\<forall>url2 evs2. respondHtml linkSite evs2 url2 = Some startPage
          \<longrightarrow> fst (extractLinks linkSite url2 evs2) = Inr links"
    and perm: "\<forall>doc'. set (anchors doc') = set (anchors startPage) \<and> location doc' = location startPage
          \<longrightarrow> linksOf linkSite doc' = Inr links"
    and abs: "(\<forall>a\<in>set (anchors startPage). selected a \<and> \<not> startsWith (href a) ''./''
            \<longrightarrow> absoluteUrl (href a))
        \<and> (\<forall>h u. resolveUrl linkSite h (location startPage) = Some u \<longrightarrow> absoluteUrl u)
          \<longrightarrow> (\<forall>l\<in>set links. absoluteUrl l)"
    by blast
  have eq: "links = ?links" using l run by simp
  have "''https://x.test/a/calendar/'' \<in> set links" using eq by simp
  then obtain a where a: "a \<in> set (anchors startPage)" "selected a"
    and c: "if startsWith (href a) ''./''
        then resolveUrl linkSite (href a) (location startPage) = Some ''https://x.test/a/calendar/''
        else ''https://x.test/a/calendar/'' = href a"
    using members by blast
  have "startsWith (href a) ''./''"
  proof (rule ccontr)
    assume n: "\<not> startsWith (href a) ''./''"
    then have "href a = ''https://x.test/a/calendar/''" using c by simp
    then show False using a(1) by (auto simp: startPage_def emptyDocument_def)
  qed
  then have a0: "\<exists>a\<in>set (anchors startPage). selected a \<and> startsWith (href a) ''./''
        \<and> resolveUrl linkSite (href a) (location startPage) = Some ''https://x.test/a/calendar/''"
    using a c by auto
  have a1: "fst (extractLinks linkSite ''https://x.test/a/'' [ConsoleLog ''again'']) = Inr ?links"
    using twice again eq by blast
  have a2: "linksOf linkSite (startPage\<lparr>anchors := rev (anchors startPage)\<rparr>) = Inr ?links"
    using perm eq by simp
  have a3: "list_all absoluteUrl ?links"
    using abs dom' res eq unfolding list_all_iff by blast
  from sd eq have a4: "sorted ?links" and a5: "distinct ?links" by simp_all
  from page ok dom run a4 a5 a0 a1 a2 a3 show ?thesis by (intro conjI)
qed

subsection \<open>Common days\<close>

text \<open>
  Claim C3, as stated, at the empty collection of lists: \<^verbatim>\<open>arrayDays.shift()\<close> is
  \<^verbatim>\<open>undefined\<close> and the computation throws instead of returning an intersection. A run
  reaches it on the sample site when the first calendar has no status cells: reading it throws,
  the error is caught and printed, no list has been collected, and the run ends with status 1.
\<close>

theorem goodDay_empty_collection:
  "goodDay [] = Inl (TypeError ''arrayDays.shift().filter'')
   \<and> app (gatheringSite [] [''ok'', ''ok'', ''ok'']) (Some ''https://g.test/'') [] =
      (Inr 1,
       [ConsoleLog ''Scraping Links...OK'',
        Request (Get ''https://g.test/''),
        Request (Get ''https://g.test/calendar/''),
        Request (Get ''https://g.test/calendar/paul.html''),
        ConsoleError ''Failed to fetch links from: https://g.test/calendar/'' None,
        ConsoleError [] (Some (TypeError ''arrayDays.shift().filter''))])"
  by code_simp

text \<open>
  Claim C3, amended. For every collection of at least one list of ok days, the computation
  returns the days of the first list that every list holds, in the order of the first list: as a
  set, the intersection of the lists. A day is in the result iff every source marks it ok, and
  if any list is empty the result is empty.
\<close>

theorem goodDay_intersection:
  assumes "arrayDays \<noteq> []"
  shows "\<exists>days. goodDay arrayDays = Inr days
    \<and> set days = (\<Inter>okDays\<in>set arrayDays. set okDays)
    \<and> (\<forall>day. day \<in> set days \<longleftrightarrow> (\<forall>okDays\<in>set arrayDays. day \<in> set okDays))
    \<and> ([] \<in> set arrayDays \<longrightarrow> days = [])"
proof -
  obtain first others where a: "arrayDays = first # others"
    using assms by (cases arrayDays) auto
  let ?days = "filter (\<lambda>day. list_all (\<lambda>okDays. day \<in> set okDays) others) first"
  have g: "goodDay arrayDays = Inr ?days" by (simp add: goodDay_def a)
  have mem: "\<forall>day. day \<in> set ?days \<longleftrightarrow> (\<forall>okDays\<in>set arrayDays. day \<in> set okDays)"
    by (auto simp: a list_all_iff)
  then have inter: "set ?days = (\<Inter>okDays\<in>set arrayDays. set okDays)" by blast
  have "[] \<in> set arrayDays \<longrightarrow> ?days = []"
  proof
    assume e: "[] \<in> set arrayDays"
    have "\<not> list_all (\<lambda>okDays. day \<in> set okDays) others" if "[] \<in> set others" for day :: string
    proof
      assume "list_all (\<lambda>okDays. day \<in> set okDays) others"
      then have "day \<in> set []" using that unfolding list_all_iff by (rule bspec)
      then show False by simp
    qed
    then show "?days = []"
      using e by (auto simp: a filter_empty_conv)
  qed
  with g mem inter show ?thesis by blast
qed

theorem goodDay_intersection_witness:
  "[[''Friday'', ''Sunday''], [''Friday''], [''Sunday'', ''Friday'']] \<noteq> []
   \<and> goodDay [[''Friday'', ''Sunday''], [''Friday''], [''Sunday'', ''Friday'']] = Inr [''Friday'']
   \<and> goodDay [[''Friday'', ''Sunday''], [], [''Sunday'', ''Friday'']] = Inr []"
proof -
  have "\<exists>days. goodDay [[''Friday'', ''Sunday''], [], [''Sunday'', ''Friday'']] = Inr days \<and> days = []"
    using goodDay_intersection [of "[[''Friday'', ''Sunday''], [], [''Sunday'', ''Friday'']]"]
    by auto
  moreover have "goodDay [[''Friday'', ''Sunday''], [''Friday''], [''Sunday'', ''Friday'']] = Inr [''Friday'']"
    by (simp add: goodDay_def)
  ultimately show ?thesis by simp
qed

subsection \<open>Slot codes of the available days\<close>

text \<open>
  Claim C7, as stated, at the code \<^verbatim>\<open>Fri1820\<close> and the day \<^verbatim>\<open>Friday\<close>: the prefix matches the
  day's name when letter case is ignored, and the code is dropped. Only the day names are
  lowered; the same code in lower case is kept.
\<close>

theorem filterDays_case_sensitive:
  "matchesIgnoringCase (slice 0 3 ''Fri1820'') ''Friday''
   \<and> ''Fri1820'' \<notin> set (filterDays [''Fri1820''] [''Friday''])
   \<and> filterDays [''Fri1820'', ''fri1820''] [''Friday''] = [''fri1820'']"
  by code_simp

text \<open>
  Claim C7, amended. A slot code is retained iff its first three characters, as written, are the
  start of the lower-cased name of at least one available day. For a code whose first three
  characters are already in lower case this is the match that ignores letter case.
\<close>

theorem filterDays_prefix_of_lowered_day:
  "(code \<in> set (filterDays codes days)
      \<longleftrightarrow> code \<in> set codes \<and> (\<exists>day\<in>set days. startsWith (toLowerCase day) (slice 0 3 code)))
   \<and> (toLowerCase (slice 0 3 code) = slice 0 3 code
      \<longrightarrow> (code \<in> set (filterDays codes days)
            \<longleftrightarrow> code \<in> set codes \<and> (\<exists>day\<in>set days. matchesIgnoringCase (slice 0 3 code) day)))"
  by (auto simp: filterDays_def matchesIgnoringCase_def list_ex_iff)

theorem filterDays_prefix_of_lowered_day_witness:
  "toLowerCase (slice 0 3 ''fri1820'') = slice 0 3 ''fri1820''
   \<and> ''fri1820'' \<in> set (filterDays [''sat1820'', ''fri1820''] [''Sunday'', ''FRIDAY''])
   \<and> ''sat1820'' \<notin> set (filterDays [''sat1820'', ''fri1820''] [''Sunday'', ''FRIDAY''])"
proof -
  have low: "toLowerCase (slice 0 3 ''fri1820'') = slice 0 3 ''fri1820''" by code_simp
  have m: "matchesIgnoringCase (slice 0 3 ''fri1820'') ''FRIDAY''" by code_simp
  note t1 = filterDays_prefix_of_lowered_day
    [of "''fri1820''" "[''sat1820'', ''fri1820'']" "[''Sunday'', ''FRIDAY'']"]
  note t2 = filterDays_prefix_of_lowered_day
    [of "''sat1820''" "[''sat1820'', ''fri1820'']" "[''Sunday'', ''FRIDAY'']"]
  have kept: "''fri1820'' \<in> set (filterDays [''sat1820'', ''fri1820''] [''Sunday'', ''FRIDAY''])"
  proof -
    have "''fri1820'' \<in> set [''sat1820'', ''fri1820'']
        \<and> (\<exists>day\<in>set [''Sunday'', ''FRIDAY'']. matchesIgnoringCase (slice 0 3 ''fri1820'') day)"
      using m by simp
    then show ?thesis using t1 [THEN conjunct2] low by blast
  qed
  have n1: "\<not> startsWith (toLowerCase ''Sunday'') (slice 0 3 ''sat1820'')" by code_simp
  have n2: "\<not> startsWith (toLowerCase ''FRIDAY'') (slice 0 3 ''sat1820'')" by code_simp
  have dropped: "''sat1820'' \<notin> set (filterDays [''sat1820'', ''fri1820''] [''Sunday'', ''FRIDAY''])"
  proof
    assume "''sat1820'' \<in> set (filterDays [''sat1820'', ''fri1820''] [''Sunday'', ''FRIDAY''])"
    then have "\<exists>day\<in>set [''Sunday'', ''FRIDAY'']. startsWith (toLowerCase day) (slice 0 3 ''sat1820'')"
      using t2 [THEN conjunct1] by blast
    then show False using n1 n2 by simp
  qed
  show ?thesis using low kept dropped by blast
qed

subsection \<open>The login of the restaurant\<close>

text \<open>
  Claim C9, as stated, at a login response that has neither a \<^verbatim>\<open>Set-Cookie\<close> nor a
  \<^verbatim>\<open>Location\<close> header: the step does not fail. It requests the link with the text
  \<^verbatim>\<open>null\<close> appended, sends the cookie \<^verbatim>\<open>null\<close>, and returns the page it gets.
\<close>

theorem restaurantAuthentication_proceeds_without_headers:
  "restaurantAuthentication silentLogin (Some ''https://r.test/dinner'') [] =
     (Inr bookingPage,
      [Request (PostLogin ''https://r.test/dinner/login''),
       Request (GetWithCookie ''https://r.test/dinnernull'' ''null'')])"
  by (simp add: restaurantAuthentication_def silentLogin_def noSite_def bindIO_def answer_def
      urlText_def nullText_def)

text \<open>
  Claim C9, amended. Whenever the login request is answered, with or without the two headers,
  the step goes on to the second request: to the link followed by the \<^verbatim>\<open>Location\<close> value, with
  the \<^verbatim>\<open>Set-Cookie\<close> value as cookie, a missing header read as the text \<^verbatim>\<open>null\<close>. The step
  fails only if one of its two requests is rejected.
\<close>

theorem restaurantAuthentication_always_fetches:
  assumes "respondLogin w evs (urlText thirdLink @ ''/login'') = Some response"
  shows "restaurantAuthentication w thirdLink evs =
     (case respondCookie w (evs @ [Request (PostLogin (urlText thirdLink @ ''/login''))])
             (urlText thirdLink @ nullText (locationHeader response)) (nullText (setCookie response)) of
        None \<Rightarrow> Inl (NetworkFailure ''fetch'')
      | Some page \<Rightarrow> Inr page,
      evs @ [Request (PostLogin (urlText thirdLink @ ''/login'')),
             Request (GetWithCookie (urlText thirdLink @ nullText (locationHeader response))
                        (nullText (setCookie response)))])"
  using assms by (simp add: restaurantAuthentication_def bindIO_def answer_def Let_def)

theorem restaurantAuthentication_always_fetches_witness:
  "respondLogin silentLogin [] (urlText (Some ''https://r.test/dinner'') @ ''/login'')
     = Some \<lparr>setCookie = None, locationHeader = None\<rparr>
   \<and> snd (restaurantAuthentication silentLogin (Some ''https://r.test/dinner'') []) =
      [Request (PostLogin ''https://r.test/dinner/login''),
       Request (GetWithCookie ''https://r.test/dinnernull'' ''null'')]"
proof -
  have l: "respondLogin silentLogin [] (urlText (Some ''https://r.test/dinner'') @ ''/login'')
     = Some \<lparr>setCookie = None, locationHeader = None\<rparr>"
    by (simp add: silentLogin_def noSite_def)
  show ?thesis
    using l restaurantAuthentication_always_fetches [OF l]
    by (simp add: urlText_def nullText_def)
qed

subsection \<open>The two-hour rule\<close>

lemma of_char_digitChar: "n < 10 \<Longrightarrow> (of_char (digitChar n) :: nat) = 48 + n"
  by (simp add: digitChar_def)

lemma digitValue_digitChar: "n < 10 \<Longrightarrow> digitValue (digitChar n) = Some n"
  by (simp add: digitValue_def of_char_digitChar)

lemma digitChar_plain:
  assumes "n < 10"
  shows "\<not> isWhiteSpace (digitChar n)" and "digitChar n \<noteq> CHR ''-''" and "digitChar n \<noteq> CHR ''+''"
    and "digitChar n \<noteq> CHR ''x''" and "digitChar n \<noteq> CHR ''X''" and "digitChar n \<noteq> CHR '':''"
    and "radixDigit 10 (digitChar n)"
proof -
  have v: "(of_char (digitChar n) :: nat) = 48 + n" by (rule of_char_digitChar [OF assms])
  show "\<not> isWhiteSpace (digitChar n)" using assms by (simp add: isWhiteSpace_def v)
  show "radixDigit 10 (digitChar n)" using assms by (simp add: radixDigit_def digitValue_digitChar)
  have ne: "digitChar n \<noteq> c" if "(of_char c :: nat) < 48 \<or> 57 < (of_char c :: nat)" for c
  proof
    assume "digitChar n = c"
    then have "(of_char c :: nat) = 48 + n" using v by simp
    then show False using that assms by simp
  qed
  show "digitChar n \<noteq> CHR ''-''" by (rule ne) simp
  show "digitChar n \<noteq> CHR ''+''" by (rule ne) simp
  show "digitChar n \<noteq> CHR ''x''" by (rule ne) simp
  show "digitChar n \<noteq> CHR ''X''" by (rule ne) simp
  show "digitChar n \<noteq> CHR '':''" by (rule ne) simp
qed

lemma parseInt_two_digits:
  assumes "a < 10" and "b < 10" and "rest = [] \<or> \<not> radixDigit 10 (hd rest)"
  shows "parseInt (digitChar a # digitChar b # rest) = Num (int (10 * a + b))"
proof -
  note da = digitChar_plain [OF assms(1)] and db = digitChar_plain [OF assms(2)]
  define s where "s = digitChar a # digitChar b # rest"
  have ws: "dropWhile isWhiteSpace s = s" using da(1) by (simp add: s_def)
  have sign: "s \<noteq> []" "hd s \<noteq> CHR ''-''" "hd s \<noteq> CHR ''+''"
    using da(2,3) by (simp_all add: s_def)
  have hex: "take 2 s \<noteq> ''0x''" "take 2 s \<noteq> ''0X''"
    using db(4,5) by (simp_all add: s_def)
  have tw: "takeWhile (radixDigit 10) s = [digitChar a, digitChar b]"
    using assms(3) da(7) db(7) by (cases rest) (auto simp: s_def)
  have val: "digitsValue 10 [digitChar a, digitChar b] = 10 * a + b"
    using assms by (simp add: digitsValue_def digitValue_digitChar)
  have "parseInt s = Num (int (10 * a + b))"
    by (simp add: parseInt_def Let_def ws sign hex tw val)
  then show ?thesis by (simp only: s_def)
qed

lemma showingHour_HH_MM:
  assumes "a < 10" and "b < 10"
  shows "showingHour \<lparr>timeOp = JStr (digitChar a # digitChar b # CHR '':'' # mm), movie = m\<rparr>
    = Num (int (10 * a + b))"
proof -
  have "splitFirst (CHR '':'') (digitChar a # digitChar b # CHR '':'' # mm) = [digitChar a, digitChar b]"
    using digitChar_plain(6) [OF assms(1)] digitChar_plain(6) [OF assms(2)]
    by (simp add: splitFirst_def)
  then show ?thesis
    using parseInt_two_digits [OF assms, of "[]"] by (simp add: showingHour_def)
qed

lemma strictEq_plusTwo: "strictEq a (plusTwo b) \<longleftrightarrow> (\<exists>h. b = Num h \<and> a = Num (h + 2))"
  by (cases a; cases b) (simp_all add: strictEq_def plusTwo_def)

lemma filmLoop_Inr:
  assumes "\<forall>film\<in>set films. \<exists>t. timeOp film = JStr t"
    and "\<forall>slot\<in>set days. \<exists>s. window slot = Inr s"
  shows "\<exists>rs. filmLoop days films acc = Inr (acc @ rs)
    \<and> map Inr rs = concat (map (\<lambda>film. map window
          (filter (\<lambda>slot. \<exists>h. showingHour film = Num h \<and> slotStartHour slot = Num (h + 2)) days)) films)"
  using assms(1)
proof (induction films arbitrary: acc)
  case Nil
  then show ?case by simp
next
  case (Cons film films)
  then obtain t where t: "timeOp film = JStr t" by auto
  let ?sel = "filter (\<lambda>slot. \<exists>h. showingHour film = Num h \<and> slotStartHour slot = Num (h + 2)) days"
  have sel: "filteredTimes days (plusTwo (parseInt (splitFirst (CHR '':'') t))) = ?sel"
    by (simp add: filteredTimes_def showingHour_def slotStartHour_def t strictEq_plusTwo)
  have "\<forall>slot\<in>set ?sel. \<exists>s. window slot = Inr s" using assms(2) by simp
  then obtain ws where ws: "mapE window ?sel = Inr ws" using mapE_total by blast
  then have wsm: "map Inr ws = map window ?sel" by (simp add: mapE_map)
  from Cons.IH [of "acc @ ws"] Cons.prems
  obtain rs where rs: "filmLoop days films (acc @ ws) = Inr ((acc @ ws) @ rs)"
    and rsm: "map Inr rs = concat (map (\<lambda>film. map window
          (filter (\<lambda>slot. \<exists>h. showingHour film = Num h \<and> slotStartHour slot = Num (h + 2)) days)) films)"
    by auto
  have "filmLoop days (film # films) acc = Inr (acc @ (ws @ rs))"
    using t sel ws rs by (simp add: Let_def)
  moreover have "map Inr (ws @ rs) = concat (map (\<lambda>film. map window
          (filter (\<lambda>slot. \<exists>h. showingHour film = Num h \<and> slotStartHour slot = Num (h + 2)) days)) (film # films))"
    using wsm rsm by simp
  ultimately show ?case by blast
qed

text \<open>
  Claim C2. For Showings whose time is a string and slot codes of the available days, the
  reconciler returns, Showing after Showing, the windows of exactly the slots whose encoded
  start hour is the Showing's hour plus two; the selection itself is that filter for any list of
  slots. A time \<^verbatim>\<open>HH:MM\<close> has the hour \<open>10 * H + H\<close>. A Showing at \<^verbatim>\<open>16:00\<close> has hour 16, the
  code \<^verbatim>\<open>fri1820\<close> has start hour 18 and gives the text \<^verbatim>\<open>18-20\<close>, and of the four codes of
  the sample page only the two Friday codes that start at 18 are matched.
\<close>

theorem sortAvailability_two_hour_rule:
  assumes "\<forall>film\<in>set films. \<exists>t. timeOp film = JStr t"
    and "\<forall>slot\<in>set (filterDays (group1 restFree) dateInfo). \<exists>s. window slot = Inr s"
  shows "(\<exists>reservation. sortAvailability restFree (Some films) dateInfo = Inr reservation
      \<and> map Inr reservation = concat (map (\<lambda>film. map window
            (filter (\<lambda>slot. \<exists>h. showingHour film = Num h \<and> slotStartHour slot = Num (h + 2))
              (filterDays (group1 restFree) dateInfo))) films))
    \<and> (\<forall>film\<in>set films. filteredTimes days (plusTwo (showingHour film)) =
          filter (\<lambda>slot. \<exists>h. showingHour film = Num h \<and> slotStartHour slot = Num (h + 2)) days)
    \<and> (\<forall>a b mm m. a < 10 \<and> b < 10 \<longrightarrow>
          showingHour \<lparr>timeOp = JStr (digitChar a # digitChar b # CHR '':'' # mm), movie = m\<rparr>
            = Num (int (10 * a + b)))
    \<and> showingHour \<lparr>timeOp = JStr ''16:00'', movie = Some ''A Day at the Races''\<rparr> = Num 16
    \<and> slotStartHour ''fri1820'' = Num 18
    \<and> window ''fri1820'' = Inr ''18-20''
    \<and> sortAvailability bookingPage
          (Some [\<lparr>timeOp = JStr ''16:00'', movie = Some ''A Day at the Races''\<rparr>]) [''Friday'']
        = Inr [''18-20'', ''18-30'']"
proof -
  have general: "\<exists>reservation. sortAvailability restFree (Some films) dateInfo = Inr reservation
      \<and> map Inr reservation = concat (map (\<lambda>film. map window
            (filter (\<lambda>slot. \<exists>h. showingHour film = Num h \<and> slotStartHour slot = Num (h + 2))
              (filterDays (group1 restFree) dateInfo))) films)"
    using filmLoop_Inr [OF assms, of "[]"] by (simp add: sortAvailability_def Let_def)
  have select: "\<forall>film\<in>set films. filteredTimes days (plusTwo (showingHour film)) =
          filter (\<lambda>slot. \<exists>h. showingHour film = Num h \<and> slotStartHour slot = Num (h + 2)) days"
    by (simp add: filteredTimes_def slotStartHour_def strictEq_plusTwo)
  have hhmm: "\<forall>a b mm m. a < 10 \<and> b < 10 \<longrightarrow>
          showingHour \<lparr>timeOp = JStr (digitChar a # digitChar b # CHR '':'' # mm), movie = m\<rparr>
            = Num (int (10 * a + b))"
    using showingHour_HH_MM by blast
  have e1: "showingHour \<lparr>timeOp = JStr ''16:00'', movie = Some ''A Day at the Races''\<rparr> = Num 16"
    by code_simp
  have e2: "slotStartHour ''fri1820'' = Num 18" by code_simp
  have e3: "window ''fri1820'' = Inr ''18-20''" by code_simp
  have e4: "sortAvailability bookingPage
          (Some [\<lparr>timeOp = JStr ''16:00'', movie = Some ''A Day at the Races''\<rparr>]) [''Friday'']
        = Inr [''18-20'', ''18-30'']"
    by code_simp
  from general select hhmm e1 e2 e3 e4 show ?thesis
    by (intro conjI) assumption+
qed

theorem sortAvailability_two_hour_rule_witness:
  "list_all (\<lambda>film. \<exists>t. timeOp film = JStr t)
     [\<lparr>timeOp = JStr ''16:00'', movie = Some ''A Day at the Races''\<rparr>,
      \<lparr>timeOp = JStr ''12:00'', movie = Some ''Keep Your Seats, Please''\<rparr>]
   \<and> filterDays (group1 bookingPage) [''Friday''] = [''fri1416'', ''fri1820'', ''fri1830'']
   \<and> list_all (\<lambda>slot. \<exists>s. window slot = Inr s) [''fri1416'', ''fri1820'', ''fri1830'']
   \<and> sortAvailability bookingPage
        (Some [\<lparr>timeOp = JStr ''16:00'', movie = Some ''A Day at the Races''\<rparr>,
               \<lparr>timeOp = JStr ''12:00'', movie = Some ''Keep Your Seats, Please''\<rparr>]) [''Friday'']
       = Inr [''18-20'', ''18-30'', ''14-16'']
   \<and> filteredTimes [''fri1416'', ''fri1820'', ''fri1830'']
        (plusTwo (showingHour \<lparr>timeOp = JStr ''16:00'', movie = Some ''A Day at the Races''\<rparr>))
       = [''fri1820'', ''fri1830'']
   \<and> showingHour \<lparr>timeOp = JStr (digitChar 1 # digitChar 6 # CHR '':'' # ''00''), movie = None\<rparr>
       = Num 16"
proof -
  let ?films = "[\<lparr>timeOp = JStr ''16:00'', movie = Some ''A Day at the Races''\<rparr>,
      \<lparr>timeOp = JStr ''12:00'', movie = Some ''Keep Your Seats, Please''\<rparr>]"
  have films: "\<forall>film\<in>set ?films. \<exists>t. timeOp film = JStr t" by simp
  have days: "filterDays (group1 bookingPage) [''Friday''] = [''fri1416'', ''fri1820'', ''fri1830'']"
    by code_simp
  have w: "window ''fri1416'' = Inr ''14-16''" "window ''fri1820'' = Inr ''18-20''"
    "window ''fri1830'' = Inr ''18-30''"
    by code_simp+
  have slots: "\<forall>slot\<in>set (filterDays (group1 bookingPage) [''Friday'']). \<exists>s. window slot = Inr s"
    by (simp add: days w)
  have h: "showingHour \<lparr>timeOp = JStr ''16:00'', movie = Some ''A Day at the Races''\<rparr> = Num 16"
    "showingHour \<lparr>timeOp = JStr ''12:00'', movie = Some ''Keep Your Seats, Please''\<rparr> = Num 12"
    by code_simp+
  have s: "slotStartHour ''fri1416'' = Num 14" "slotStartHour ''fri1820'' = Num 18"
    "slotStartHour ''fri1830'' = Num 18"
    by code_simp+
  from sortAvailability_two_hour_rule [OF films slots, THEN conjunct1]
  obtain reservation where r: "sortAvailability bookingPage (Some ?films) [''Friday''] = Inr reservation"
    and m: "map Inr reservation = concat (map (\<lambda>film. map window
            (filter (\<lambda>slot. \<exists>h. showingHour film = Num h \<and> slotStartHour slot = Num (h + 2))
              (filterDays (group1 bookingPage) [''Friday''])) ) ?films)"
    by blast
  have "map Inr reservation = (map Inr [''18-20'', ''18-30'', ''14-16''] :: (error + string) list)"
    using m by (simp add: days h s w)
  then have "reservation = [''18-20'', ''18-30'', ''14-16'']"
    by (simp only: inj_map_eq_map [OF inj_Inr])
  then have whole: "sortAvailability bookingPage (Some ?films) [''Friday'']
      = Inr [''18-20'', ''18-30'', ''14-16'']"
    using r by simp
  note t = sortAvailability_two_hour_rule [OF films slots]
  have "filteredTimes [''fri1416'', ''fri1820'', ''fri1830'']
        (plusTwo (showingHour \<lparr>timeOp = JStr ''16:00'', movie = Some ''A Day at the Races''\<rparr>))
      = filter (\<lambda>slot. \<exists>h. showingHour \<lparr>timeOp = JStr ''16:00'', movie = Some ''A Day at the Races''\<rparr>
              = Num h \<and> slotStartHour slot = Num (h + 2)) [''fri1416'', ''fri1820'', ''fri1830'']"
    using t [of "[''fri1416'', ''fri1820'', ''fri1830'']", THEN conjunct2, THEN conjunct1] by simp
  then have selection: "filteredTimes [''fri1416'', ''fri1820'', ''fri1830'']
        (plusTwo (showingHour \<lparr>timeOp = JStr ''16:00'', movie = Some ''A Day at the Races''\<rparr>))
      = [''fri1820'', ''fri1830'']"
    by (simp add: h s)
  have reading: "showingHour
      \<lparr>timeOp = JStr (digitChar 1 # digitChar 6 # CHR '':'' # ''00''), movie = None\<rparr> = Num 16"
    using t [THEN conjunct2, THEN conjunct2, THEN conjunct1] by simp
  show ?thesis
    using whole days w films selection reading by (simp add: list_all_iff)
qed

subsection \<open>The final assembly\<close>

lemma filterE_Inr:
  assumes "\<forall>x\<in>set xs. p x = Inr (q x)"
  shows "filterE p xs = Inr (filter q xs)"
  using assms by (induction xs) auto








subsection \<open>The showtime collector\<close>

lemma getField_fieldOf:
  assumes "item \<noteq> JNull" and "item \<noteq> JUndefined"
  shows "getField name item = Inr (fieldOf name item)"
  using assms by (cases item) (simp_all add: getField_def fieldOf_def)

lemma mapE_Inr:
  assumes "\<forall>x\<in>set xs. f x = Inr (g x)"
  shows "mapE f xs = Inr (map g xs)"
  using assms by (induction xs) auto

lemma removeZero_Inr:
  assumes "JNull \<notin> set items" and "JUndefined \<notin> set items"
  shows "removeZero (JArr items) = Inr (filter (\<lambda>item. fieldOf ''status'' item \<noteq> JNum 0) items)"
proof -
  have "\<forall>num\<in>set items. (case getField ''status'' num of Inl e \<Rightarrow> Inl e
          | Inr status \<Rightarrow> Inr (status \<noteq> JNum 0)) = Inr (fieldOf ''status'' num \<noteq> JNum 0)"
  proof
    fix num
    assume "num \<in> set items"
    then have "num \<noteq> JNull" "num \<noteq> JUndefined" using assms by auto
    then show "(case getField ''status'' num of Inl e \<Rightarrow> Inl e
          | Inr status \<Rightarrow> Inr (status \<noteq> JNum 0)) = Inr (fieldOf ''status'' num \<noteq> JNum 0)"
      by (simp add: getField_fieldOf)
  qed
  then show ?thesis by (simp add: removeZero_def filterE_Inr)
qed

lemma movieTimes_Inr:
  assumes "JNull \<notin> set items" and "JUndefined \<notin> set items"
  shows "movieTimes options movieString (JArr items) =
     Inr (map (\<lambda>item. \<lparr>timeOp = fieldOf ''time'' item, movie = movieTitle options movieString\<rparr>)
            (filter (\<lambda>item. fieldOf ''status'' item \<noteq> JNum 0) items))"
proof -
  let ?kept = "filter (\<lambda>item. fieldOf ''status'' item \<noteq> JNum 0) items"
  have "\<forall>item\<in>set ?kept. getField ''time'' item = Inr (fieldOf ''time'' item)"
  proof
    fix item
    assume "item \<in> set ?kept"
    then have "item \<in> set items" by simp
    then have "item \<noteq> JNull" "item \<noteq> JUndefined" using assms by auto
    then show "getField ''time'' item = Inr (fieldOf ''time'' item)"
      by (rule getField_fieldOf)
  qed
  then have "mapE (getField ''time'') ?kept = Inr (map (fieldOf ''time'') ?kept)"
    by (rule mapE_Inr)
  then show ?thesis
    by (simp add: movieTimes_def removeZero_Inr [OF assms] comp_def)
qed

text \<open>
  Claim C6. For every response that is an array without \<^verbatim>\<open>null\<close> entries, the collector makes
  one Showing of each entry whose status is not the number 0, in order, with the entry's time,
  and none of the entries whose status is 0. In the sample, the response with status 0 at
  \<^verbatim>\<open>10:00\<close> and status 1 at \<^verbatim>\<open>16:00\<close> yields exactly one Showing, at \<^verbatim>\<open>16:00\<close>.
\<close>

theorem movieTimes_keeps_nonzero_status:
  assumes "JNull \<notin> set items" and "JUndefined \<notin> set items"
  shows "(\<exists>showings. movieTimes options movieString (JArr items) = Inr showings
      \<and> map timeOp showings =
          map (fieldOf ''time'') (filter (\<lambda>item. fieldOf ''status'' item \<noteq> JNum 0) items))
    \<and> iterateMovieDates
         (cinemaSite [\<lparr>ovalue = [], otext = ''--- Pick a Movie ---''\<rparr>,
                      \<lparr>ovalue = ''01'', otext = ''Keep Your Seats, Please''\<rparr>])
         (Some ''https://c.test/cinema'') ''Friday'' []
       = (Inr [\<lparr>timeOp = JStr ''16:00'', movie = Some ''Keep Your Seats, Please''\<rparr>],
          [Request (Get ''https://c.test/cinema''),
           Request (Get ''https://c.test/cinema/check?day=05&movie=01'')])"
proof -
  have "map timeOp (map (\<lambda>item. \<lparr>timeOp = fieldOf ''time'' item, movie = movieTitle options movieString\<rparr>)
            (filter (\<lambda>item. fieldOf ''status'' item \<noteq> JNum 0) items))
      = map (fieldOf ''time'') (filter (\<lambda>item. fieldOf ''status'' item \<noteq> JNum 0) items)"
    by (simp add: comp_def)
  then have general: "\<exists>showings. movieTimes options movieString (JArr items) = Inr showings
      \<and> map timeOp showings =
          map (fieldOf ''time'') (filter (\<lambda>item. fieldOf ''status'' item \<noteq> JNum 0) items)"
    using movieTimes_Inr [OF assms] by blast
  have sample: "iterateMovieDates
         (cinemaSite [\<lparr>ovalue = [], otext = ''--- Pick a Movie ---''\<rparr>,
                      \<lparr>ovalue = ''01'', otext = ''Keep Your Seats, Please''\<rparr>])
         (Some ''https://c.test/cinema'') ''Friday'' []
       = (Inr [\<lparr>timeOp = JStr ''16:00'', movie = Some ''Keep Your Seats, Please''\<rparr>],
          [Request (Get ''https://c.test/cinema''),
           Request (Get ''https://c.test/cinema/check?day=05&movie=01'')])"
    by code_simp
  from general sample show ?thesis by (rule conjI)
qed

theorem movieTimes_keeps_nonzero_status_witness:
  "JNull \<notin> set [JObj [(''status'', JNum 0), (''time'', JStr ''10:00'')],
                   JObj [(''status'', JNum 1), (''time'', JStr ''16:00'')]]
   \<and> JUndefined \<notin> set [JObj [(''status'', JNum 0), (''time'', JStr ''10:00'')],
                        JObj [(''status'', JNum 1), (''time'', JStr ''16:00'')]]
   \<and> (\<exists>showings. movieTimes [] ''01''
          (JArr [JObj [(''status'', JNum 0), (''time'', JStr ''10:00'')],
                 JObj [(''status'', JNum 1), (''time'', JStr ''16:00'')]]) = Inr showings
        \<and> map timeOp showings = [JStr ''16:00''])"
proof -
  let ?items = "[JObj [(''status'', JNum 0), (''time'', JStr ''10:00'')],
                 JObj [(''status'', JNum 1), (''time'', JStr ''16:00'')]]"
  have a: "JNull \<notin> set ?items" and b: "JUndefined \<notin> set ?items" by simp_all
  have "map (fieldOf ''time'') (filter (\<lambda>item. fieldOf ''status'' item \<noteq> JNum 0) ?items)
      = [JStr ''16:00'']"
    by (simp add: fieldOf_def)
  then show ?thesis
    using a b movieTimes_keeps_nonzero_status [OF a b, of "[]" "''01''", THEN conjunct1]
    by simp
qed

lemma movieTimes_movie:
  assumes "movieTimes options movieString content = Inr showings"
  shows "\<forall>s\<in>set showings. movie s = movieTitle options movieString"
  using assms by (auto simp: movieTimes_def split: sum.splits)

lemma movieTimes_any_options:
  assumes "movieTimes options movieString content = Inr showings"
  shows "\<exists>showings'. movieTimes others movieString content = Inr showings'
    \<and> map timeOp showings' = map timeOp showings"
  using assms by (auto simp: movieTimes_def comp_def split: sum.splits)

lemma padStart2_one_digit:
  assumes "m < 10"
  shows "padStart2 (natToString m) = [CHR ''0'', digitChar m]"
  using assms by (simp add: padStart2_def digitChar_def)

text \<open>
  Claim C10. Every Showing made for a movie id carries the text of the first option whose value
  equals the id's text, which is the id padded to two digits with a zero; the position of the
  option plays no part. If no option has that value the title is \<^verbatim>\<open>undefined\<close>, and the same
  times are emitted whatever the options are. The samples: with the options of ids 02 and 01 in
  swapped positions each Showing gets the title of its own id, and with no option of value 01
  the Showing of id 01 is emitted without a title.
\<close>

theorem movieTitle_by_value:
  assumes "movieTimes options movieString content = Inr showings"
  shows "(\<forall>s\<in>set showings. movie s = movieTitle options movieString)
    \<and> (\<forall>option. find (\<lambda>option. ovalue option = movieString) options = Some option
          \<longrightarrow> (\<forall>s\<in>set showings. movie s = Some (otext option)))
    \<and> ((\<forall>option\<in>set options. ovalue option \<noteq> movieString)
          \<longrightarrow> (\<forall>s\<in>set showings. movie s = None))
    \<and> (\<forall>others. \<exists>showings'. movieTimes others movieString content = Inr showings'
          \<and> map timeOp showings' = map timeOp showings)
    \<and> (\<forall>m<10. padStart2 (natToString m) = [CHR ''0'', digitChar m])
    \<and> iterateMovieDates
         (cinemaSite [\<lparr>ovalue = [], otext = ''--- Pick a Movie ---''\<rparr>,
                      \<lparr>ovalue = ''02'', otext = ''A Day at the Races''\<rparr>,
                      \<lparr>ovalue = ''01'', otext = ''Keep Your Seats, Please''\<rparr>])
         (Some ''https://c.test/cinema'') ''Friday'' []
       = (Inr [\<lparr>timeOp = JStr ''16:00'', movie = Some ''Keep Your Seats, Please''\<rparr>,
               \<lparr>timeOp = JStr ''18:00'', movie = Some ''A Day at the Races''\<rparr>],
          [Request (Get ''https://c.test/cinema''),
           Request (Get ''https://c.test/cinema/check?day=05&movie=01''),
           Request (Get ''https://c.test/cinema/check?day=05&movie=02'')])
    \<and> iterateMovieDates
         (cinemaSite [\<lparr>ovalue = [], otext = ''--- Pick a Movie ---''\<rparr>,
                      \<lparr>ovalue = ''07'', otext = ''Keep Your Seats, Please''\<rparr>])
         (Some ''https://c.test/cinema'') ''Friday'' []
       = (Inr [\<lparr>timeOp = JStr ''16:00'', movie = None\<rparr>],
          [Request (Get ''https://c.test/cinema''),
           Request (Get ''https://c.test/cinema/check?day=05&movie=01'')])"
proof -
  have title: "\<forall>s\<in>set showings. movie s = movieTitle options movieString"
    by (rule movieTimes_movie [OF assms])
  have found: "\<forall>option. find (\<lambda>option. ovalue option = movieString) options = Some option
          \<longrightarrow> (\<forall>s\<in>set showings. movie s = Some (otext option))"
    using title by (simp add: movieTitle_def)
  have absent: "(\<forall>option\<in>set options. ovalue option \<noteq> movieString)
          \<longrightarrow> (\<forall>s\<in>set showings. movie s = None)"
  proof
    assume "\<forall>option\<in>set options. ovalue option \<noteq> movieString"
    then have "find (\<lambda>option. ovalue option = movieString) options = None"
      by (simp add: find_None_iff)
    then show "\<forall>s\<in>set showings. movie s = None"
      using title by (simp add: movieTitle_def)
  qed
  have emitted: "\<forall>others. \<exists>showings'. movieTimes others movieString content = Inr showings'
          \<and> map timeOp showings' = map timeOp showings"
    using movieTimes_any_options [OF assms] by blast
  have padded: "\<forall>m<10. padStart2 (natToString m) = [CHR ''0'', digitChar m]"
    using padStart2_one_digit by blast
  have shuffled: "iterateMovieDates
         (cinemaSite [\<lparr>ovalue = [], otext = ''--- Pick a Movie ---''\<rparr>,
                      \<lparr>ovalue = ''02'', otext = ''A Day at the Races''\<rparr>,
                      \<lparr>ovalue = ''01'', otext = ''Keep Your Seats, Please''\<rparr>])
         (Some ''https://c.test/cinema'') ''Friday'' []
       = (Inr [\<lparr>timeOp = JStr ''16:00'', movie = Some ''Keep Your Seats, Please''\<rparr>,
               \<lparr>timeOp = JStr ''18:00'', movie = Some ''A Day at the Races''\<rparr>],
          [Request (Get ''https://c.test/cinema''),
           Request (Get ''https://c.test/cinema/check?day=05&movie=01''),
           Request (Get ''https://c.test/cinema/check?day=05&movie=02'')])"
    by code_simp
  have missing: "iterateMovieDates
         (cinemaSite [\<lparr>ovalue = [], otext = ''--- Pick a Movie ---''\<rparr>,
                      \<lparr>ovalue = ''07'', otext = ''Keep Your Seats, Please''\<rparr>])
         (Some ''https://c.test/cinema'') ''Friday'' []
       = (Inr [\<lparr>timeOp = JStr ''16:00'', movie = None\<rparr>],
          [Request (Get ''https://c.test/cinema''),
           Request (Get ''https://c.test/cinema/check?day=05&movie=01'')])"
    by code_simp
  from title found absent emitted padded shuffled missing show ?thesis
    by (intro conjI) assumption+
qed

theorem movieTitle_by_value_witness:
  "movieTimes [\<lparr>ovalue = ''07'', otext = ''Keep Your Seats, Please''\<rparr>] ''01''
      (JArr [JObj [(''status'', JNum 1), (''time'', JStr ''16:00'')]])
     = Inr [\<lparr>timeOp = JStr ''16:00'', movie = None\<rparr>]
   \<and> list_all (\<lambda>option. ovalue option \<noteq> ''01'')
       [\<lparr>ovalue = ''07'', otext = ''Keep Your Seats, Please''\<rparr>]
   \<and> list_all (\<lambda>s. movie s = None) [\<lparr>timeOp = JStr ''16:00'', movie = None\<rparr>]
   \<and> (\<exists>showings'. movieTimes [\<lparr>ovalue = ''01'', otext = ''Keep Your Seats, Please''\<rparr>] ''01''
          (JArr [JObj [(''status'', JNum 1), (''time'', JStr ''16:00'')]]) = Inr showings'
        \<and> map timeOp showings' = [JStr ''16:00''])
   \<and> movieTimes [\<lparr>ovalue = ''02'', otext = ''A Day at the Races''\<rparr>,
                  \<lparr>ovalue = ''01'', otext = ''Keep Your Seats, Please''\<rparr>] ''01''
      (JArr [JObj [(''status'', JNum 1), (''time'', JStr ''16:00'')]])
     = Inr [\<lparr>timeOp = JStr ''16:00'', movie = Some ''Keep Your Seats, Please''\<rparr>]
   \<and> find (\<lambda>option. ovalue option = ''01'')
        [\<lparr>ovalue = ''02'', otext = ''A Day at the Races''\<rparr>,
         \<lparr>ovalue = ''01'', otext = ''Keep Your Seats, Please''\<rparr>]
     = Some \<lparr>ovalue = ''01'', otext = ''Keep Your Seats, Please''\<rparr>
   \<and> list_all (\<lambda>s. movie s = Some ''Keep Your Seats, Please'')
       [\<lparr>timeOp = JStr ''16:00'', movie = Some ''Keep Your Seats, Please''\<rparr>]"
proof -
  let ?content = "JArr [JObj [(''status'', JNum 1), (''time'', JStr ''16:00'')]]"
  let ?two = "[\<lparr>ovalue = ''02'', otext = ''A Day at the Races''\<rparr>,
               \<lparr>ovalue = ''01'', otext = ''Keep Your Seats, Please''\<rparr>]"
  have run: "movieTimes [\<lparr>ovalue = ''07'', otext = ''Keep Your Seats, Please''\<rparr>] ''01'' ?content
     = Inr [\<lparr>timeOp = JStr ''16:00'', movie = None\<rparr>]"
    by code_simp
  note t = movieTitle_by_value [OF run]
  have no: "\<forall>option\<in>set [\<lparr>ovalue = ''07'', otext = ''Keep Your Seats, Please''\<rparr>].
      ovalue option \<noteq> ''01''"
    by simp
  have untitled: "\<forall>s\<in>set [\<lparr>timeOp = JStr ''16:00'', movie = None\<rparr>]. movie s = None"
    using t no by blast
  have emitted: "\<exists>showings'. movieTimes [\<lparr>ovalue = ''01'', otext = ''Keep Your Seats, Please''\<rparr>]
          ''01'' ?content = Inr showings'
        \<and> map timeOp showings' = map timeOp [\<lparr>timeOp = JStr ''16:00'', movie = None\<rparr>]"
    using t by blast
  have run2: "movieTimes ?two ''01'' ?content
     = Inr [\<lparr>timeOp = JStr ''16:00'', movie = Some ''Keep Your Seats, Please''\<rparr>]"
    by code_simp
  have found: "find (\<lambda>option. ovalue option = ''01'') ?two
     = Some \<lparr>ovalue = ''01'', otext = ''Keep Your Seats, Please''\<rparr>"
    by simp
  have titled: "\<forall>s\<in>set [\<lparr>timeOp = JStr ''16:00'', movie = Some ''Keep Your Seats, Please''\<rparr>].
      movie s = Some (otext \<lparr>ovalue = ''01'', otext = ''Keep Your Seats, Please''\<rparr>)"
    using movieTitle_by_value [OF run2] found by blast
  show ?thesis
    using run no untitled emitted run2 found titled by (simp add: list_all_iff)
qed

subsection \<open>No common day\<close>

lemma goodDay_no_common_day:
  assumes "(\<Inter>okDays\<in>set arrayDays. set okDays) = {}"
  shows "goodDay arrayDays = Inr []"
proof -
  have "arrayDays \<noteq> []" using assms by auto
  then obtain first others where a: "arrayDays = first # others"
    by (cases arrayDays) auto
  have "\<not> list_all (\<lambda>okDays. day \<in> set okDays) others" if "day \<in> set first" for day
  proof
    assume "list_all (\<lambda>okDays. day \<in> set okDays) others"
    then have "day \<in> (\<Inter>okDays\<in>set arrayDays. set okDays)"
      using that by (simp add: a list_all_iff)
    then show False using assms by simp
  qed
  then have "filter (\<lambda>day. list_all (\<lambda>okDays. day \<in> set okDays) others) first = []"
    by (simp add: filter_empty_conv)
  then show ?thesis by (simp add: goodDay_def a)
qed

lemma extractDates_no_common_day:
  assumes "initial w argv2 evs = (Inr (Some links), evs1)"
    and "tryDates w (nthLink links 0) evs1 = (Inr (arrayDays, caught), evs2)"
    and "goodDay arrayDays = Inr []"
  shows "extractDates w argv2 evs = (Inr (Some []), evs2 @ dateStageEnd links caught)"
  using assms
  by (cases caught)
    (simp_all add: extractDates_def bindIO_def Let_def returnIO_def emit_def dateStageEnd_def)

lemma run_no_dates:
  assumes "extractDates w argv2 (evs @ [ConsoleLog ''Scraping Links...OK'']) = (Inr (Some []), evs')"
  shows "run w argv2 evs = (Inr ''No Dates Available'', evs')"
  using assms by (simp add: run_def bindIO_def emit_def returnIO_def)

lemma app_prints:
  assumes "run w argv2 evs = (Inr out, evs')"
  shows "app w argv2 evs = (Inr 0, evs' @ [ConsoleLog out])"
  using assms by (simp add: app_def catchIO_def bindIO_def emit_def returnIO_def)

lemma extends_returnIO: "extends (returnIO x)"
  by (simp add: extends_def returnIO_def)

lemma extends_throwIO: "extends (throwIO e)"
  by (simp add: extends_def throwIO_def)

lemma extends_liftE: "extends (liftE r)"
  by (simp add: extends_def liftE_def)

lemma extends_emit: "extends (emit ev)"
  by (simp add: extends_def emit_def)

lemma extends_answer: "extends (\<lambda>evs. answer rq (r evs) evs)"
  by (simp add: extends_def answer_def)

lemma extends_bindIO:
  assumes "extends m" and "\<And>x. extends (f x)"
  shows "extends (bindIO m f)"
  unfolding extends_def
proof
  fix evs
  obtain r evs1 where m: "m evs = (r, evs1)" by (cases "m evs")
  then obtain more1 where e1: "evs1 = evs @ more1"
    using assms(1) unfolding extends_def by (metis snd_conv)
  show "\<exists>more. snd (bindIO m f evs) = evs @ more"
  proof (cases r)
    case (Inl e)
    then show ?thesis using m e1 by (simp add: bindIO_def)
  next
    case (Inr x)
    obtain more2 where "snd (f x evs1) = evs1 @ more2"
      using assms(2) unfolding extends_def by blast
    then show ?thesis using m e1 Inr by (simp add: bindIO_def)
  qed
qed

lemma extends_fetchDocument: "extends (fetchDocument w url)"
  unfolding fetchDocument_def by (rule extends_answer)

lemma extends_getCheckUrl: "extends (getCheckUrl w secondLink day movieString)"
  unfolding getCheckUrl_def Let_def by (rule extends_answer)

lemma extends_movieLoop: "extends (movieLoop w secondLink dayString options ms data)"
proof (induction ms arbitrary: data)
  case Nil
  then show ?case by (simp add: extends_returnIO)
next
  case (Cons m ms)
  have step: "extends (case movieTimes options s content of
        Inl e \<Rightarrow> throwIO e
      | Inr found \<Rightarrow> movieLoop w secondLink dayString options ms (data @ found))" for s content
    by (cases "movieTimes options s content") (simp_all add: extends_throwIO Cons.IH)
  have "extends (bindIO (getCheckUrl w secondLink dayString (padStart2 (natToString m)))
      (\<lambda>content. case movieTimes options (padStart2 (natToString m)) content of
          Inl e \<Rightarrow> throwIO e
        | Inr found \<Rightarrow> movieLoop w secondLink dayString options ms (data @ found)))"
    by (rule extends_bindIO [OF extends_getCheckUrl step])
  then show ?case by (simp add: Let_def)
qed

lemma extends_iterateMovieDates: "extends (iterateMovieDates w secondLink day)"
proof -
  have "extends (case movieSelect doc of
         None \<Rightarrow> throwIO (TypeError ''movies.options'')
       | Some options \<Rightarrow>
           (case daySelect doc of
              None \<Rightarrow> throwIO (TypeError ''days.options'')
            | Some dayOp \<Rightarrow>
                (case find (\<lambda>option. otext option = day) dayOp of
                   None \<Rightarrow>
                     bindIO (emit (ConsoleError ''No dates available'' None)) (\<lambda>_. returnIO [])
                 | Some goodDayOption \<Rightarrow>
                     (case dayStringOf (ovalue goodDayOption) of
                        Inl e \<Rightarrow> throwIO e
                      | Inr dayString \<Rightarrow>
                          movieLoop w secondLink dayString options [1..<length options] []))))"
    for doc
    by (simp add: extends_throwIO extends_returnIO extends_emit extends_movieLoop extends_bindIO
        split: option.split sum.split)
  then show ?thesis
    unfolding iterateMovieDates_def by (rule extends_bindIO [OF extends_fetchDocument])
qed

lemma extends_cinemaLoop: "extends (cinemaLoop w secondLink goodDays film)"
proof (induction goodDays arbitrary: film)
  case Nil
  then show ?case by (simp add: extends_returnIO)
next
  case (Cons day goodDays)
  show ?case
    unfolding cinemaLoop.simps
    by (rule extends_bindIO [OF extends_iterateMovieDates]) (rule Cons.IH)
qed

lemma extends_restaurantAuthentication: "extends (restaurantAuthentication w thirdLink)"
  unfolding restaurantAuthentication_def Let_def
  by (rule extends_bindIO [OF extends_answer]) (rule extends_answer)

lemma initial_first_request:
  "\<exists>more. snd (initial w argv2 evs) = evs @ Request (Get (urlText argv2)) # more"
proof -
  have "snd (extractLinks w (urlText argv2) evs) = evs @ [Request (Get (urlText argv2))]"
    by (simp add: extractLinks_def bindIO_def fetchDocument_def answer_def liftE_def
        split: option.split)
  then obtain r where "extractLinks w (urlText argv2) evs = (r, evs @ [Request (Get (urlText argv2))])"
    by (cases "extractLinks w (urlText argv2) evs") simp
  then show ?thesis
    by (cases r)
      (auto simp: initial_def catchIO_def bindIO_def returnIO_def emit_def split: error.split)
qed

lemma stage_first_request:
  assumes "\<And>links. extends (f links)"
  shows "\<exists>more. snd (bindIO (initial w argv2) f evs) = evs @ Request (Get (urlText argv2)) # more"
proof -
  obtain r evs1 where i: "initial w argv2 evs = (r, evs1)" by (cases "initial w argv2 evs")
  then obtain more1 where e1: "evs1 = evs @ Request (Get (urlText argv2)) # more1"
    using initial_first_request [of w argv2 evs] by auto
  show ?thesis
  proof (cases r)
    case (Inl e)
    then show ?thesis using i e1 by (simp add: bindIO_def)
  next
    case (Inr links)
    obtain more2 where "snd (f links evs1) = evs1 @ more2"
      using assms unfolding extends_def by blast
    then show ?thesis using i e1 Inr by (simp add: bindIO_def)
  qed
qed

lemma extractCinema_first_request:
  "\<exists>more. snd (extractCinema w argv2 goodDays evs) = evs @ Request (Get (urlText argv2)) # more"
  unfolding extractCinema_def
  by (rule stage_first_request)
    (auto simp: extends_returnIO extends_emit extends_cinemaLoop
      intro!: extends_bindIO split: option.split)

lemma extractRestaurant_first_request:
  "\<exists>more. snd (extractRestaurant w argv2 cinemaInfo dateInfo evs)
      = evs @ Request (Get (urlText argv2)) # more"
  unfolding extractRestaurant_def
  by (rule stage_first_request)
    (auto simp: extends_returnIO extends_emit extends_liftE extends_restaurantAuthentication
      intro!: extends_bindIO split: option.split)

text \<open>
  Claim C4. When the lists of ok days that the date stage has collected have no day in common,
  \<^verbatim>\<open>run\<close> returns the fixed text \<^verbatim>\<open>No Dates Available\<close>, which the entry
  point prints before it ends with status 0. The events of the run end with those of the date
  stage: the cinema stage and the restaurant stage, either of which begins with a request for
  the start page, add nothing.
\<close>

theorem run_no_common_day:
  assumes "initial w argv2 (evs @ [ConsoleLog ''Scraping Links...OK'']) = (Inr (Some links), evs1)"
    and "tryDates w (nthLink links 0) evs1 = (Inr (arrayDays, caught), evs2)"
    and "(\<Inter>okDays\<in>set arrayDays. set okDays) = {}"
  shows "run w argv2 evs = (Inr ''No Dates Available'', evs2 @ dateStageEnd links caught)
    \<and> app w argv2 evs =
        (Inr 0, evs2 @ dateStageEnd links caught @ [ConsoleLog ''No Dates Available''])
    \<and> (\<forall>days. \<exists>more. snd (extractCinema w argv2 days (evs2 @ dateStageEnd links caught))
          = (evs2 @ dateStageEnd links caught) @ Request (Get (urlText argv2)) # more)
    \<and> (\<forall>cinemaInfo days. \<exists>more.
          snd (extractRestaurant w argv2 cinemaInfo days (evs2 @ dateStageEnd links caught))
          = (evs2 @ dateStageEnd links caught) @ Request (Get (urlText argv2)) # more)"
proof -
  have "goodDay arrayDays = Inr []"
    by (rule goodDay_no_common_day [OF assms(3)])
  then have "extractDates w argv2 (evs @ [ConsoleLog ''Scraping Links...OK''])
      = (Inr (Some []), evs2 @ dateStageEnd links caught)"
    by (rule extractDates_no_common_day [OF assms(1,2)])
  then have r: "run w argv2 evs = (Inr ''No Dates Available'', evs2 @ dateStageEnd links caught)"
    by (rule run_no_dates)
  have a: "app w argv2 evs =
        (Inr 0, evs2 @ dateStageEnd links caught @ [ConsoleLog ''No Dates Available''])"
    using app_prints [OF r] by simp
  from r a extractCinema_first_request extractRestaurant_first_request show ?thesis
    by blast
qed

theorem run_no_common_day_witness:
  "initial (gatheringSite [''ok'', ''--'', ''--''] [''--'', ''OK'', ''ok'']) (Some ''https://g.test/'')
      ([] @ [ConsoleLog ''Scraping Links...OK''])
     = (Inr (Some [''https://g.test/calendar/'', ''https://g.test/cinema'', ''https://g.test/dinner'']),
        [ConsoleLog ''Scraping Links...OK'', Request (Get ''https://g.test/'')])
   \<and> tryDates (gatheringSite [''ok'', ''--'', ''--''] [''--'', ''OK'', ''ok''])
        (nthLink [''https://g.test/calendar/'', ''https://g.test/cinema'', ''https://g.test/dinner''] 0)
        [ConsoleLog ''Scraping Links...OK'', Request (Get ''https://g.test/'')]
     = (Inr ([[''Friday''], [''Saturday'', ''Sunday'']], None),
        [ConsoleLog ''Scraping Links...OK'', Request (Get ''https://g.test/''),
         Request (Get ''https://g.test/calendar/''),
         Request (Get ''https://g.test/calendar/paul.html''),
         Request (Get ''https://g.test/calendar/peter.html'')])
   \<and> (\<Inter>okDays\<in>set [[''Friday''], [''Saturday'', ''Sunday'']]. set okDays) = {}
   \<and> app (gatheringSite [''ok'', ''--'', ''--''] [''--'', ''OK'', ''ok'']) (Some ''https://g.test/'') []
     = (Inr 0,
        [ConsoleLog ''Scraping Links...OK'', Request (Get ''https://g.test/''),
         Request (Get ''https://g.test/calendar/''),
         Request (Get ''https://g.test/calendar/paul.html''),
         Request (Get ''https://g.test/calendar/peter.html''),
         ConsoleLog ''Scraping Date...OK'', ConsoleLog ''No Dates Available''])"
proof -
  let ?w = "gatheringSite [''ok'', ''--'', ''--''] [''--'', ''OK'', ''ok'']"
  let ?links = "[''https://g.test/calendar/'', ''https://g.test/cinema'', ''https://g.test/dinner'']"
  have i: "initial ?w (Some ''https://g.test/'') ([] @ [ConsoleLog ''Scraping Links...OK''])
     = (Inr (Some ?links), [ConsoleLog ''Scraping Links...OK'', Request (Get ''https://g.test/'')])"
    by code_simp
  have t: "tryDates ?w (nthLink ?links 0)
        [ConsoleLog ''Scraping Links...OK'', Request (Get ''https://g.test/'')]
     = (Inr ([[''Friday''], [''Saturday'', ''Sunday'']], None),
        [ConsoleLog ''Scraping Links...OK'', Request (Get ''https://g.test/''),
         Request (Get ''https://g.test/calendar/''),
         Request (Get ''https://g.test/calendar/paul.html''),
         Request (Get ''https://g.test/calendar/peter.html'')])"
    by code_simp
  have e: "(\<Inter>okDays\<in>set [[''Friday''], [''Saturday'', ''Sunday'']]. set okDays) = {}" by simp
  show ?thesis
    using i t e run_no_common_day [OF i t e, THEN conjunct2, THEN conjunct1]
    by (simp add: dateStageEnd_def)
qed

subsection \<open>The text of the suggestions\<close>

lemma finalResult_lines:
  assumes "finalResult dateInfo cinemaInfo restaurantInfo = Inr out"
  shows "\<exists>results. dateLoop dateInfo cinemaInfo restaurantInfo [] = Inr results
    \<and> out = CHR 0x0A # ''Suggestions:'' @ CHR 0x0A # joinLines (unique results)
    \<and> distinct (unique results) \<and> set (unique results) = set results"
  using assms by (auto simp: finalResult_def distinct_unique set_unique split: sum.splits)

text \<open>
  Claim C1, on the sample site where both friends are free on Friday, two movies start at
  \<^verbatim>\<open>16:00\<close> and a table is free from 18 to 20. The run returns a heading and two sentences,
  separated by newlines, each sentence once although the loops produce it twice. The sentences
  read \<^verbatim>\<open>Begins at\<close> and end without a full stop: they are not of the literal form of the
  specification, which reads \<^verbatim>\<open>begins at\<close> and ends with a full stop.
\<close>

theorem run_sentence_form:
  "run (gatheringSite [''ok'', ''OK'', ''--''] [''ok'', ''--'', ''ok'']) (Some ''https://g.test/'') []
     = (Inr (CHR 0x0A # ''Suggestions:'' @ CHR 0x0A #
          ''On Friday, \"Keep Your Seats, Please\" Begins at 16:00, and there is a free table between 18-20''
          @ CHR 0x0A #
          ''On Friday, \"A Day at the Races\" Begins at 16:00, and there is a free table between 18-20''),
        [ConsoleLog ''Scraping Links...OK'',
         Request (Get ''https://g.test/''),
         Request (Get ''https://g.test/calendar/''),
         Request (Get ''https://g.test/calendar/paul.html''),
         Request (Get ''https://g.test/calendar/peter.html''),
         ConsoleLog ''Scraping Date...OK'',
         Request (Get ''https://g.test/''),
         Request (Get ''https://g.test/cinema''),
         Request (Get ''https://g.test/cinema/check?day=05&movie=01''),
         Request (Get ''https://g.test/cinema/check?day=05&movie=02''),
         ConsoleLog ''Scraping Cinema...OK'',
         Request (Get ''https://g.test/''),
         Request (PostLogin ''https://g.test/dinner/login''),
         Request (GetWithCookie ''https://g.test/dinner/login/booking'' ''sid=1''),
         ConsoleLog ''Scraping Restaurant...OK''])
   \<and> suggestion ''Friday'' (Some ''Keep Your Seats, Please'') ''16:00'' ''18-20''
       = ''On Friday, \"Keep Your Seats, Please\" Begins at 16:00, and there is a free table between 18-20''
   \<and> specSentence ''Friday'' ''Keep Your Seats, Please'' ''16:00'' ''18-20''
       = ''On Friday, \"Keep Your Seats, Please\" begins at 16:00, and there is a free table between 18-20.''
   \<and> suggestion ''Friday'' (Some ''Keep Your Seats, Please'') ''16:00'' ''18-20''
       \<noteq> specSentence ''Friday'' ''Keep Your Seats, Please'' ''16:00'' ''18-20''"
  by code_simp

end
